theory Spec2Isabelle
  imports Complex_Main
begin

section \<open>JavaScript values used by the robot visualizer\<close>

text \<open>
  The engine of \<^verbatim>\<open>frontend/js/robot-visualizer.js\<close> computes with JavaScript numbers.
  They are modelled by the real numbers (no rounding, no overflow, no infinities, no
  negative zero), together with the two non-numbers the code can produce: \<^verbatim>\<open>undefined\<close>
  (a field that a command object does not have) and \<^verbatim>\<open>NaN\<close>.
\<close>

datatype jsval = Undefined | NaN | Num real

text \<open>\<^verbatim>\<open>ToNumber\<close>: \<^verbatim>\<open>undefined\<close> and \<^verbatim>\<open>NaN\<close> are not numbers (\<open>None\<close>).\<close>

fun ToNumber :: "jsval \<Rightarrow> real option" where
  "ToNumber (Num r) = Some r"
| "ToNumber NaN = None"
| "ToNumber Undefined = None"

definition js_arith :: "(real \<Rightarrow> real \<Rightarrow> real) \<Rightarrow> jsval \<Rightarrow> jsval \<Rightarrow> jsval" where
  "js_arith f a b =
     (case ToNumber a of
        None \<Rightarrow> NaN
      | Some r \<Rightarrow> (case ToNumber b of None \<Rightarrow> NaN | Some q \<Rightarrow> Num (f r q)))"

definition js_add :: "jsval \<Rightarrow> jsval \<Rightarrow> jsval" where
  "js_add = js_arith (+)"

definition js_sub :: "jsval \<Rightarrow> jsval \<Rightarrow> jsval" where
  "js_sub = js_arith (-)"

definition js_mul :: "jsval \<Rightarrow> jsval \<Rightarrow> jsval" where
  "js_mul = js_arith (*)"

text \<open>\<^verbatim>\<open>Math.sqrt\<close>: \<^verbatim>\<open>NaN\<close> on a non-number and on a negative number.\<close>

definition Math_sqrt :: "jsval \<Rightarrow> jsval" where
  "Math_sqrt a =
     (case ToNumber a of
        None \<Rightarrow> NaN
      | Some r \<Rightarrow> if r < 0 then NaN else Num (sqrt r))"

text \<open>The comparison \<^verbatim>\<open>a < b\<close>: false as soon as one side is not a number.\<close>

definition js_lt :: "jsval \<Rightarrow> jsval \<Rightarrow> bool" where
  "js_lt a b =
     (case ToNumber a of
        None \<Rightarrow> False
      | Some r \<Rightarrow> (case ToNumber b of None \<Rightarrow> False | Some q \<Rightarrow> r < q))"

text \<open>\<^verbatim>\<open>Math.min(a, b)\<close> and \<^verbatim>\<open>Math.round(a)\<close> (halves round towards plus infinity).\<close>

definition Math_min :: "jsval \<Rightarrow> jsval \<Rightarrow> jsval" where
  "Math_min = js_arith min"

definition Math_round :: "jsval \<Rightarrow> jsval" where
  "Math_round a = (case ToNumber a of None \<Rightarrow> NaN | Some r \<Rightarrow> Num (of_int \<lfloor>r + 1 / 2\<rfloor>))"


section \<open>Data model of the engine\<close>

record vec3 =
  vx :: jsval
  vy :: jsval
  vz :: jsval

definition origin :: vec3 where
  "origin = \<lparr>vx = Num 0, vy = Num 0, vz = Num 0\<rparr>"

text \<open>
  A command object \<^verbatim>\<open>{action, x?, y?, z?, speed?}\<close> with the two fields that
  \<^verbatim>\<open>loadCommands\<close> adds. An absent numeric field is \<open>None\<close>.
\<close>

record command =
  action :: string
  cmd_x :: "real option"
  cmd_y :: "real option"
  cmd_z :: "real option"
  speed :: "real option"
  index :: nat
  completed :: bool

text \<open>The two callbacks the engine hands to \<^verbatim>\<open>setTimeout\<close>.\<close>

datatype callback = CompleteCurrentCommand | ExecuteNextCommand

text \<open>
  The fields of a \<^verbatim>\<open>RobotVisualizer\<close> that the engine reads or writes, and the part of
  the host it relies on: a clock in milliseconds and the pending timers, each with the
  time at which it becomes due, in the order of their creation.
\<close>

record robot =
  position :: vec3
  targetPosition :: vec3
  currentPosition :: vec3
  gripperOpen :: bool
  isAnimating :: bool
  animationSpeed :: real
  commandQueue :: "command list"
  currentCommandIndex :: nat
  executionStartTime :: "nat option"
  isPaused :: bool
  scale :: real
  centerX :: real
  centerY :: real
  clock :: nat
  timers :: "(nat \<times> callback) list"

record snapshot =
  snap_position :: vec3
  snap_gripperOpen :: bool
  snap_isAnimating :: bool
  snap_isPaused :: bool
  snap_currentCommandIndex :: nat
  snap_totalCommands :: nat


section \<open>Operations of the engine\<close>

text \<open>
  The engine as the constructor leaves it, for a canvas of the given size: the fields
  set by the constructor and by \<^verbatim>\<open>setupCanvas\<close>. The first run of \<^verbatim>\<open>animate\<close>, which
  \<^verbatim>\<open>init\<close> makes, finds \<^verbatim>\<open>isAnimating\<close> false and changes nothing. Drawing and the
  updates of the page have no effect on these fields and are left out.
\<close>

definition new_RobotVisualizer :: "real \<Rightarrow> real \<Rightarrow> robot" where
  "new_RobotVisualizer width height =
     \<lparr>position = origin, targetPosition = origin, currentPosition = origin,
      gripperOpen = True, isAnimating = False, animationSpeed = 2 / 100,
      commandQueue = [], currentCommandIndex = 0, executionStartTime = None,
      isPaused = False, scale = 15 / 10, centerX = width / 2, centerY = height - 80,
      clock = 0, timers = []\<rparr>"

definition project3D :: "robot \<Rightarrow> real \<Rightarrow> real \<Rightarrow> real \<Rightarrow> real \<times> real" where
  "project3D st x y z =
     (let sc = scale st;
          screenX = centerX st + (x - y) * cos (pi / 6) * sc;
          screenY = centerY st - (x + y) * sin (pi / 6) * sc - z * sc
      in (screenX, screenY))"

definition setTimeout :: "callback \<Rightarrow> nat \<Rightarrow> robot \<Rightarrow> robot" where
  "setTimeout cb delay st = st\<lparr>timers := timers st @ [(clock st + delay, cb)]\<rparr>"

definition markCommandCompleted :: "nat \<Rightarrow> robot \<Rightarrow> robot" where
  "markCommandCompleted i st =
     (if i < length (commandQueue st)
      then st\<lparr>commandQueue := (commandQueue st)[i := (commandQueue st ! i)\<lparr>completed := True\<rparr>]\<rparr>
      else st)"

definition completeExecution :: "robot \<Rightarrow> robot" where
  "completeExecution st = st\<lparr>isAnimating := False\<rparr>"

definition completeCurrentCommand :: "robot \<Rightarrow> robot" where
  "completeCurrentCommand st =
     (let st1 = (if currentCommandIndex st < length (commandQueue st)
                 then (let st' = markCommandCompleted (currentCommandIndex st) st
                       in st'\<lparr>currentCommandIndex := currentCommandIndex st' + 1\<rparr>)
                 else st)
      in setTimeout ExecuteNextCommand 200 st1)"

definition field :: "real option \<Rightarrow> jsval" where
  "field v = (case v of None \<Rightarrow> Undefined | Some r \<Rightarrow> Num r)"

text \<open>
  \<^verbatim>\<open>v || d\<close> on an optional number: an absent field and the number 0 are both falsy.
\<close>

definition js_or :: "real option \<Rightarrow> real \<Rightarrow> real" where
  "js_or v d = (case v of None \<Rightarrow> d | Some r \<Rightarrow> if r = 0 then d else r)"

definition executeNextCommand :: "robot \<Rightarrow> robot" where
  "executeNextCommand st =
     (if isPaused st \<or> currentCommandIndex st \<ge> length (commandQueue st)
      then (if currentCommandIndex st \<ge> length (commandQueue st)
            then completeExecution st else st)
      else
        (let cmd = commandQueue st ! currentCommandIndex st
         in if action cmd = ''move_to''
            then st\<lparr>targetPosition :=
                       \<lparr>vx = field (cmd_x cmd), vy = field (cmd_y cmd), vz = field (cmd_z cmd)\<rparr>,
                     animationSpeed := js_or (speed cmd) 50 / 2500\<rparr>
            else if action cmd = ''close_gripper''
            then setTimeout CompleteCurrentCommand 1000 (st\<lparr>gripperOpen := False\<rparr>)
            else if action cmd = ''open_gripper''
            then setTimeout CompleteCurrentCommand 1000 (st\<lparr>gripperOpen := True\<rparr>)
            else setTimeout CompleteCurrentCommand 500 st))"

text \<open>
  \<^verbatim>\<open>animate\<close> up to the copy of the current position into \<^verbatim>\<open>position\<close>, in exact
  arithmetic; the arithmetic with rounding and the call of \<^verbatim>\<open>draw\<close> that follows are
  modelled further down.
\<close>

definition animate :: "robot \<Rightarrow> robot" where
  "animate st =
     (let st1 =
        (if isAnimating st
         then
           (let tp = targetPosition st; cp = currentPosition st; sp = Num (animationSpeed st);
                dx = js_sub (vx tp) (vx cp);
                dy = js_sub (vy tp) (vy cp);
                dz = js_sub (vz tp) (vz cp);
                st' = st\<lparr>currentPosition :=
                           \<lparr>vx = js_add (vx cp) (js_mul dx sp),
                            vy = js_add (vy cp) (js_mul dy sp),
                            vz = js_add (vz cp) (js_mul dz sp)\<rparr>\<rparr>;
                distance = Math_sqrt (js_add (js_add (js_mul dx dx) (js_mul dy dy)) (js_mul dz dz))
            in if js_lt distance (Num 2)
               then completeCurrentCommand (st'\<lparr>currentPosition := targetPosition st'\<rparr>)
               else st')
         else st)
      in st1\<lparr>position := currentPosition st1\<rparr>)"

definition loadCommands :: "command list \<Rightarrow> robot \<Rightarrow> robot" where
  "loadCommands commands st =
     st\<lparr>commandQueue := map (\<lambda>(i, cmd). cmd\<lparr>index := i, completed := False\<rparr>)
                            (enumerate 0 commands),
        currentCommandIndex := 0\<rparr>"

definition startExecution :: "robot \<Rightarrow> robot" where
  "startExecution st =
     (if length (commandQueue st) = 0 then st
      else executeNextCommand
             (st\<lparr>isAnimating := True, isPaused := False,
                 executionStartTime := Some (clock st), currentCommandIndex := 0\<rparr>))"

definition pauseExecution :: "robot \<Rightarrow> robot" where
  "pauseExecution st = st\<lparr>isPaused := True\<rparr>"

definition resumeExecution :: "robot \<Rightarrow> robot" where
  "resumeExecution st = executeNextCommand (st\<lparr>isPaused := False\<rparr>)"

definition stopExecution :: "robot \<Rightarrow> robot" where
  "stopExecution st =
     st\<lparr>isAnimating := False, isPaused := False, currentPosition := origin,
        targetPosition := origin, gripperOpen := True\<rparr>"

definition getState :: "robot \<Rightarrow> snapshot" where
  "getState st =
     \<lparr>snap_position = position st, snap_gripperOpen = gripperOpen st,
      snap_isAnimating = isAnimating st, snap_isPaused = isPaused st,
      snap_currentCommandIndex = currentCommandIndex st,
      snap_totalCommands = length (commandQueue st)\<rparr>"


section \<open>The host: animation frames and timers\<close>

text \<open>
  The engine is driven by its callers and by the host's event loop. One event is a call
  of a public operation, an animation frame (the callback that \<^verbatim>\<open>animate\<close> registers
  with \<^verbatim>\<open>requestAnimationFrame\<close> at the end of every run), the passing of time, or the
  host running the pending timer that became due first (the older one of two timers due
  at the same time). The host decides when frames come: a frame does not move the clock.
\<close>

datatype event =
    LoadCommands "command list"
  | StartExecution
  | PauseExecution
  | ResumeExecution
  | StopExecution
  | Frame
  | Elapse nat
  | Timeout

fun earliest :: "(nat \<times> callback) list \<Rightarrow> (nat \<times> callback) option" where
  "earliest [] = None"
| "earliest (t # ts) =
     (case earliest ts of
        None \<Rightarrow> Some t
      | Some u \<Rightarrow> if fst u < fst t then Some u else Some t)"

fun run_callback :: "callback \<Rightarrow> robot \<Rightarrow> robot" where
  "run_callback CompleteCurrentCommand st = completeCurrentCommand st"
| "run_callback ExecuteNextCommand st = executeNextCommand st"

definition fire :: "robot \<Rightarrow> robot" where
  "fire st =
     (case earliest (timers st) of
        None \<Rightarrow> st
      | Some t \<Rightarrow>
          if fst t \<le> clock st
          then run_callback (snd t) (st\<lparr>timers := remove1 t (timers st)\<rparr>)
          else st)"

fun step :: "robot \<Rightarrow> event \<Rightarrow> robot" where
  "step st (LoadCommands cs) = loadCommands cs st"
| "step st StartExecution = startExecution st"
| "step st PauseExecution = pauseExecution st"
| "step st ResumeExecution = resumeExecution st"
| "step st StopExecution = stopExecution st"
| "step st Frame = animate st"
| "step st (Elapse d) = st\<lparr>clock := clock st + d\<rparr>"
| "step st Timeout = fire st"

definition run :: "robot \<Rightarrow> event list \<Rightarrow> robot" where
  "run st evs = foldl step st evs"



section \<open>The controller's conversion of backend commands\<close>

text \<open>
  \<^verbatim>\<open>MultimodalRoboticsApp.loadRobotCommands\<close> converts each command of the analysis
  result before it hands the list to \<^verbatim>\<open>loadCommands\<close>: \<^verbatim>\<open>x: cmd.x || 0\<close>, the same
  for \<^verbatim>\<open>y\<close> and \<^verbatim>\<open>z\<close>, and \<^verbatim>\<open>speed: cmd.speed || 50\<close>.
\<close>

definition convert_command :: "command \<Rightarrow> command" where
  "convert_command cmd =
     cmd\<lparr>cmd_x := Some (js_or (cmd_x cmd) 0), cmd_y := Some (js_or (cmd_y cmd) 0),
         cmd_z := Some (js_or (cmd_z cmd) 0), speed := Some (js_or (speed cmd) 50)\<rparr>"

definition loadRobotCommands :: "command list \<Rightarrow> robot \<Rightarrow> robot" where
  "loadRobotCommands commands st = loadCommands (map convert_command commands) st"


section \<open>Colour shading\<close>

text \<open>
  Strings are lists of characters; the colours of the visualizer are ASCII. The white
  space that \<^verbatim>\<open>parseInt\<close> skips is the ASCII part of JavaScript's white space.
\<close>

definition is_space :: "char \<Rightarrow> bool" where
  "is_space c = (of_char c \<in> {9, 10, 11, 12, 13, 32 :: nat})"

definition hex_digit :: "char \<Rightarrow> nat option" where
  "hex_digit = map_of
     [(CHR ''0'', 0), (CHR ''1'', 1), (CHR ''2'', 2), (CHR ''3'', 3), (CHR ''4'', 4),
      (CHR ''5'', 5), (CHR ''6'', 6), (CHR ''7'', 7), (CHR ''8'', 8), (CHR ''9'', 9),
      (CHR ''a'', 10), (CHR ''b'', 11), (CHR ''c'', 12), (CHR ''d'', 13), (CHR ''e'', 14),
      (CHR ''f'', 15), (CHR ''A'', 10), (CHR ''B'', 11), (CHR ''C'', 12), (CHR ''D'', 13),
      (CHR ''E'', 14), (CHR ''F'', 15)]"

definition is_hex :: "char \<Rightarrow> bool" where
  "is_hex c = (hex_digit c \<noteq> None)"

definition hex_value :: "string \<Rightarrow> nat" where
  "hex_value ds = foldl (\<lambda>a c. 16 * a + the (hex_digit c)) 0 ds"

text \<open>
  \<^verbatim>\<open>parseInt(s, 16)\<close>: leading white space, a sign, the prefix \<^verbatim>\<open>0x\<close> or \<^verbatim>\<open>0X\<close>, then
  the longest run of hexadecimal digits; \<^verbatim>\<open>NaN\<close> when that run is empty.
\<close>

definition parseInt16 :: "string \<Rightarrow> jsval" where
  "parseInt16 s =
     (let s1 = dropWhile is_space s;
          sign = (if take 1 s1 = ''-'' then - 1 else 1 :: real);
          s2 = (if take 1 s1 = ''-'' \<or> take 1 s1 = ''+'' then drop 1 s1 else s1);
          s3 = (if take 2 s2 = ''0x'' \<or> take 2 s2 = ''0X'' then drop 2 s2 else s2);
          ds = takeWhile is_hex s3
      in if ds = [] then NaN else Num (sign * real (hex_value ds)))"

text \<open>\<^verbatim>\<open>s.substr(start, len)\<close> for non-negative arguments.\<close>

definition substr :: "nat \<Rightarrow> nat \<Rightarrow> string \<Rightarrow> string" where
  "substr start len s = take len (drop start s)"

text \<open>Decimal digits of a natural number, and of an integer.\<close>

definition digit_char :: "nat \<Rightarrow> char" where
  "digit_char n = ''0123456789'' ! (n mod 10)"

fun dec :: "nat \<Rightarrow> string" where
  "dec n = (if n < 10 then [digit_char n] else dec (n div 10) @ [digit_char (n mod 10)])"

declare dec.simps [simp del]

definition dec_int :: "int \<Rightarrow> string" where
  "dec_int i = (if i < 0 then ''-'' @ dec (nat (- i)) else dec (nat i))"

text \<open>
  The text that a template literal inserts for a value. JavaScript prints an integer
  of magnitude below \<open>10\<^sup>2\<^sup>1\<close> in plain decimal; the other numbers (fractions, exponent
  notation) do not occur for the rounded channels of a colour with a moderate amount,
  and are left out of the model (\<open>None\<close>).
\<close>

definition Number_toString :: "jsval \<Rightarrow> string option" where
  "Number_toString v =
     (case v of
        Undefined \<Rightarrow> Some ''undefined''
      | NaN \<Rightarrow> Some ''NaN''
      | Num r \<Rightarrow>
          if r = of_int \<lfloor>r\<rfloor> \<and> \<bar>r\<bar> < 10 ^ 21 then Some (dec_int \<lfloor>r\<rfloor>) else None)"

text \<open>
  One channel of \<^verbatim>\<open>lightenColor\<close>: \<^verbatim>\<open>Math.round(Math.min(255, parseInt(h, 16) + amount * 255))\<close>
  for the two-character piece \<open>h\<close> of the colour.
\<close>

definition channel :: "string \<Rightarrow> real \<Rightarrow> jsval" where
  "channel h amount =
     Math_round (Math_min (Num 255) (js_add (parseInt16 h) (Num (amount * 255))))"

definition rgb_text :: "jsval \<Rightarrow> jsval \<Rightarrow> jsval \<Rightarrow> string option" where
  "rgb_text r g b =
     (case (Number_toString r, Number_toString g, Number_toString b) of
        (Some tr, Some tg, Some tb) \<Rightarrow> Some (''rgb('' @ tr @ '', '' @ tg @ '', '' @ tb @ '')'')
      | _ \<Rightarrow> None)"

definition lightenColor :: "string \<Rightarrow> real \<Rightarrow> string option" where
  "lightenColor color amount =
     (let hex = remove1 (CHR ''#'') color
      in rgb_text (channel (substr 0 2 hex) amount)
                  (channel (substr 2 2 hex) amount)
                  (channel (substr 4 2 hex) amount))"

definition darkenColor :: "string \<Rightarrow> real \<Rightarrow> string option" where
  "darkenColor color amount = lightenColor color (- amount)"


section \<open>Notions used in the statements\<close>

text \<open>The Euclidean distance from \<^verbatim>\<open>currentPosition\<close> to \<^verbatim>\<open>targetPosition\<close>.\<close>

definition distance :: "robot \<Rightarrow> jsval" where
  "distance st =
     (let dx = js_sub (vx (targetPosition st)) (vx (currentPosition st));
          dy = js_sub (vy (targetPosition st)) (vy (currentPosition st));
          dz = js_sub (vz (targetPosition st)) (vz (currentPosition st))
      in Math_sqrt (js_add (js_add (js_mul dx dx) (js_mul dy dy)) (js_mul dz dz)))"

fun is_num :: "jsval \<Rightarrow> bool" where
  "is_num (Num r) = True"
| "is_num NaN = False"
| "is_num Undefined = False"

definition numeric :: "vec3 \<Rightarrow> bool" where
  "numeric v = (is_num (vx v) \<and> is_num (vy v) \<and> is_num (vz v))"

definition vec :: "real \<Rightarrow> real \<Rightarrow> real \<Rightarrow> vec3" where
  "vec a b c = \<lparr>vx = Num a, vy = Num b, vz = Num c\<rparr>"

text \<open>A command object with an action and the given optional fields.\<close>

definition cmd :: "string \<Rightarrow> real option \<Rightarrow> real option \<Rightarrow> real option \<Rightarrow> real option \<Rightarrow> command" where
  "cmd a x y z s =
     \<lparr>action = a, cmd_x = x, cmd_y = y, cmd_z = z, speed = s, index = 0, completed = False\<rparr>"

definition frames :: "nat \<Rightarrow> event list" where
  "frames n = replicate n Frame"

text \<open>The distance between two points with numeric coordinates.\<close>

definition gap :: "real \<Rightarrow> real \<Rightarrow> real \<Rightarrow> real \<Rightarrow> real \<Rightarrow> real \<Rightarrow> real" where
  "gap a b c p q r = sqrt ((p - a) * (p - a) + (q - b) * (q - b) + (r - c) * (r - c))"

text \<open>
  Concrete states: the engine as \<^verbatim>\<open>startExecution\<close> leaves it just before it activates
  the single command \<^verbatim>\<open>{action: 'move_to', x: 10, y: 0, z: 0, speed: 50}\<close>, and the engine
  after the completion timer of a single \<^verbatim>\<open>close_gripper\<close> command has run.
\<close>

definition move_ready :: robot where
  "move_ready =
     (loadCommands [cmd ''move_to'' (Some 10) (Some 0) (Some 0) (Some 50)]
        (new_RobotVisualizer 800 600))
     \<lparr>isAnimating := True, isPaused := False, executionStartTime := Some 0,
      currentCommandIndex := 0\<rparr>"

definition after_close :: robot where
  "after_close = run (new_RobotVisualizer 800 600)
     [LoadCommands [cmd ''close_gripper'' None None None None],
      StartExecution, Elapse 1000, Timeout]"

text \<open>The engine paused one frame into the move towards \<open>{10, 0, 0}\<close>.\<close>

definition paused_mid_move :: robot where
  "paused_mid_move = run (new_RobotVisualizer 800 600)
     [LoadCommands [cmd ''move_to'' (Some 10) (Some 0) (Some 0) (Some 50)],
      StartExecution, Frame, PauseExecution]"


text \<open>
  The engine just before it activates the single command \<^verbatim>\<open>{action: 'move_to'}\<close>, which
  has no coordinates and no speed, loaded through the controller.
\<close>

definition defaults_ready :: robot where
  "defaults_ready =
     (loadRobotCommands [cmd ''move_to'' None None None None] (new_RobotVisualizer 800 600))
     \<lparr>isAnimating := True, isPaused := False, executionStartTime := Some 0,
      currentCommandIndex := 0\<rparr>"


text \<open>
  The channel formula in the words of the specification:
  \<open>channel' = clamp(channel + amount * 255, 0, 255)\<close>.
\<close>

definition clamp :: "real \<Rightarrow> real \<Rightarrow> real \<Rightarrow> real" where
  "clamp v lo hi = max lo (min hi v)"

definition spec_channel :: "nat \<Rightarrow> real \<Rightarrow> real" where
  "spec_channel v amount = clamp (real v + amount * 255) 0 255"


text \<open>
  The sequence \<^verbatim>\<open>[move_to {10, 0, 0, speed 50}, close_gripper, open_gripper]\<close>, the engine
  just after \<^verbatim>\<open>startExecution\<close> on it, and two continuations of the 81 animation frames
  that the move takes. In both, every timer runs as soon as it is due. In the first, the
  frame loop stalls for 216 ms after the frame that reaches the target and then runs
  every 16 ms; in the second it runs every 16 ms throughout. Frames after the end of the
  execution change nothing and are left out.
\<close>

definition gripper_sequence :: "command list" where
  "gripper_sequence =
     [cmd ''move_to'' (Some 10) (Some 0) (Some 0) (Some 50),
      cmd ''close_gripper'' None None None None,
      cmd ''open_gripper'' None None None None]"

definition started :: robot where
  "started = run (new_RobotVisualizer 800 600) [LoadCommands gripper_sequence, StartExecution]"

definition stalled_frames :: "event list" where
  "stalled_frames =
     [Elapse 200, Timeout,
      Elapse 16, Frame, Elapse 16, Frame, Elapse 16, Frame, Elapse 16, Frame,
      Elapse 16, Frame, Elapse 16, Frame, Elapse 16, Frame, Elapse 16, Frame,
      Elapse 16, Frame, Elapse 16, Frame, Elapse 16, Frame, Elapse 16, Frame,
      Elapse 16, Frame,
      Elapse 8, Timeout,
      Elapse 192, Timeout, Timeout, Timeout, Timeout, Timeout, Timeout,
      Timeout, Timeout, Timeout, Timeout, Timeout, Timeout,
      Elapse 592, Timeout, Elapse 200, Timeout]"

definition steady_frames :: "event list" where
  "steady_frames =
     [Elapse 16, Frame, Elapse 16, Frame, Elapse 16, Frame, Elapse 16, Frame,
      Elapse 16, Frame, Elapse 16, Frame, Elapse 16, Frame, Elapse 16, Frame,
      Elapse 16, Frame, Elapse 16, Frame, Elapse 16, Frame, Elapse 16, Frame,
      Elapse 8, Timeout,
      Elapse 192, Timeout, Timeout, Timeout, Timeout, Timeout, Timeout,
      Timeout, Timeout, Timeout, Timeout, Timeout, Timeout]"


section \<open>Arithmetic with rounding\<close>

text \<open>
  JavaScript's numbers are IEEE doubles: every operation returns its exact result rounded.
  A rounding is a function on the reals. The roundings considered are those that are at
  least as accurate as the doubles on the numbers of magnitude up to \<open>10\<^sup>2\<^sup>0\<close> (the doubles
  have a relative error of at most \<open>2\<^sup>-\<^sup>5\<^sup>3\<close> there, and an absolute error far below
  \<open>10\<^sup>-\<^sup>1\<^sup>5\<close> near zero) and that keep the sign of a number that is not negative, as the
  rounding of doubles does. The identity, which is exact arithmetic, is one of them.
\<close>

definition rounds :: "(real \<Rightarrow> real) \<Rightarrow> bool" where
  "rounds fl =
     ((\<forall>x. \<bar>x\<bar> \<le> 10 ^ 20 \<longrightarrow> \<bar>fl x - x\<bar> \<le> (\<bar>x\<bar> + 1) / 10 ^ 15)
      \<and> (\<forall>x. 0 \<le> x \<longrightarrow> 0 \<le> fl x))"

text \<open>The result of an operation, rounded.\<close>

definition js_fl :: "(real \<Rightarrow> real) \<Rightarrow> jsval \<Rightarrow> jsval" where
  "js_fl fl v = (case ToNumber v of None \<Rightarrow> NaN | Some r \<Rightarrow> Num (fl r))"

text \<open>
  The update of the pose in \<^verbatim>\<open>animate\<close> with every operation rounded: the three
  subtractions, the products with the rate, the additions to the current position, and
  the squares, the sums and the square root of the distance.
\<close>

definition animate_fl :: "(real \<Rightarrow> real) \<Rightarrow> robot \<Rightarrow> robot" where
  "animate_fl fl st =
     (let st1 =
        (if isAnimating st
         then
           (let tp = targetPosition st; cp = currentPosition st; sp = Num (animationSpeed st);
                dx = js_fl fl (js_sub (vx tp) (vx cp));
                dy = js_fl fl (js_sub (vy tp) (vy cp));
                dz = js_fl fl (js_sub (vz tp) (vz cp));
                st' = st\<lparr>currentPosition :=
                           \<lparr>vx = js_fl fl (js_add (vx cp) (js_fl fl (js_mul dx sp))),
                            vy = js_fl fl (js_add (vy cp) (js_fl fl (js_mul dy sp))),
                            vz = js_fl fl (js_add (vz cp) (js_fl fl (js_mul dz sp)))\<rparr>\<rparr>;
                distance =
                  js_fl fl (Math_sqrt (js_fl fl (js_add
                    (js_fl fl (js_add (js_fl fl (js_mul dx dx)) (js_fl fl (js_mul dy dy))))
                    (js_fl fl (js_mul dz dz)))))
            in if js_lt distance (Num 2)
               then completeCurrentCommand (st'\<lparr>currentPosition := targetPosition st'\<rparr>)
               else st')
         else st)
      in st1\<lparr>position := currentPosition st1\<rparr>)"

text \<open>
  The activation of a command in \<^verbatim>\<open>executeNextCommand\<close> with its one operation, the
  division of the speed by 2500, rounded.
\<close>

definition executeNextCommand_fl :: "(real \<Rightarrow> real) \<Rightarrow> robot \<Rightarrow> robot" where
  "executeNextCommand_fl fl st =
     (if isPaused st \<or> currentCommandIndex st \<ge> length (commandQueue st)
      then (if currentCommandIndex st \<ge> length (commandQueue st)
            then completeExecution st else st)
      else
        (let cmd = commandQueue st ! currentCommandIndex st
         in if action cmd = ''move_to''
            then st\<lparr>targetPosition :=
                       \<lparr>vx = field (cmd_x cmd), vy = field (cmd_y cmd), vz = field (cmd_z cmd)\<rparr>,
                     animationSpeed := fl (js_or (speed cmd) 50 / 2500)\<rparr>
            else if action cmd = ''close_gripper''
            then setTimeout CompleteCurrentCommand 1000 (st\<lparr>gripperOpen := False\<rparr>)
            else if action cmd = ''open_gripper''
            then setTimeout CompleteCurrentCommand 1000 (st\<lparr>gripperOpen := True\<rparr>)
            else setTimeout CompleteCurrentCommand 500 st))"

text \<open>The distance as a tick computes it.\<close>

definition measured :: "(real \<Rightarrow> real) \<Rightarrow> robot \<Rightarrow> jsval" where
  "measured fl st =
     (let dx = js_fl fl (js_sub (vx (targetPosition st)) (vx (currentPosition st)));
          dy = js_fl fl (js_sub (vy (targetPosition st)) (vy (currentPosition st)));
          dz = js_fl fl (js_sub (vz (targetPosition st)) (vz (currentPosition st)))
      in js_fl fl (Math_sqrt (js_fl fl (js_add
           (js_fl fl (js_add (js_fl fl (js_mul dx dx)) (js_fl fl (js_mul dy dy))))
           (js_fl fl (js_mul dz dz))))))"

text \<open>One coordinate after a tick, and the distance as a tick computes it, on numbers.\<close>

definition approach :: "(real \<Rightarrow> real) \<Rightarrow> real \<Rightarrow> real \<Rightarrow> real \<Rightarrow> real" where
  "approach fl s t c = fl (c + fl (fl (t - c) * s))"

definition squares :: "(real \<Rightarrow> real) \<Rightarrow> real \<Rightarrow> real \<Rightarrow> real \<Rightarrow> real" where
  "squares fl ex ey ez =
     fl (fl (fl (fl ex * fl ex) + fl (fl ey * fl ey)) + fl (fl ez * fl ez))"

definition seen :: "(real \<Rightarrow> real) \<Rightarrow> real \<Rightarrow> real \<Rightarrow> real \<Rightarrow> real" where
  "seen fl ex ey ez = fl (sqrt (squares fl ex ey ez))"

text \<open>
  An engine that is animating towards a target with coordinates of magnitude at most
  \<open>10\<^sup>6\<close>, at a rate between \<open>3 / 10\<^sup>4\<close> and \<open>2 - 3 / 10\<^sup>4\<close> (the rounded
  \<open>speed / 2500\<close> of a speed between 1 and 4999 lies there), and whose current position is
  numeric and not further from the target than \<open>2 * 10\<^sup>6 + 1\<close> in any coordinate.
\<close>

definition tracking :: "robot \<Rightarrow> real \<Rightarrow> real \<Rightarrow> real \<Rightarrow> bool" where
  "tracking st p q r =
     (isAnimating st \<and> targetPosition st = vec p q r
      \<and> \<bar>p\<bar> \<le> 10 ^ 6 \<and> \<bar>q\<bar> \<le> 10 ^ 6 \<and> \<bar>r\<bar> \<le> 10 ^ 6
      \<and> 3 / 10 ^ 4 \<le> animationSpeed st \<and> animationSpeed st \<le> 2 - 3 / 10 ^ 4
      \<and> (\<exists>a b c. currentPosition st = vec a b c
            \<and> \<bar>p - a\<bar> \<le> 2 * 10 ^ 6 + 1 \<and> \<bar>q - b\<bar> \<le> 2 * 10 ^ 6 + 1
            \<and> \<bar>r - c\<bar> \<le> 2 * 10 ^ 6 + 1))"

text \<open>A position with numeric coordinates of magnitude at most \<open>b\<close>.\<close>

fun limited :: "real \<Rightarrow> jsval \<Rightarrow> bool" where
  "limited b (Num r) = (\<bar>r\<bar> \<le> b)"
| "limited b NaN = False"
| "limited b Undefined = False"

definition inside :: "real \<Rightarrow> vec3 \<Rightarrow> bool" where
  "inside b v = (limited b (vx v) \<and> limited b (vy v) \<and> limited b (vz v))"

text \<open>
  Two roundings that are not exact: to 51 binary places, and to multiples of \<open>1 / 8\<close> on
  the numbers of magnitude \<open>5 * 10\<^sup>1\<^sup>4\<close> and more (the doubles between \<open>2\<^sup>4\<^sup>9\<close> and \<open>2\<^sup>5\<^sup>0\<close>
  are the multiples of \<open>1 / 8\<close>). The engine three units short of the target
  \<open>{10\<^sup>1\<^sup>5, 0, 0}\<close>, at the default rate.
\<close>

definition grid :: "real \<Rightarrow> real" where
  "grid x = of_int \<lfloor>x * 2 ^ 51 + 1 / 2\<rfloor> / 2 ^ 51"

definition coarse :: "real \<Rightarrow> real" where
  "coarse x = (if 5 * 10 ^ 14 \<le> \<bar>x\<bar> then of_int \<lfloor>x * 8 + 1 / 2\<rfloor> / 8 else x)"

definition far_from_home :: robot where
  "far_from_home =
     (new_RobotVisualizer 800 600)
     \<lparr>isAnimating := True, targetPosition := vec (10 ^ 15) 0 0,
      currentPosition := vec (10 ^ 15 - 3) 0 0, position := vec (10 ^ 15 - 3) 0 0\<rparr>"

text \<open>
  The engine at \<open>{1, 0, 0}\<close> on its way to \<open>{10, 0, 0}\<close> at the rate \<open>10\<^sup>-\<^sup>1\<^sup>8\<close>, the one of the
  speed \<open>2.5 * 10\<^sup>-\<^sup>1\<^sup>5\<close>.
\<close>

definition slow_move :: robot where
  "slow_move =
     (new_RobotVisualizer 800 600)
     \<lparr>isAnimating := True, targetPosition := vec 10 0 0, currentPosition := vec 1 0 0,
      position := vec 1 0 0, animationSpeed := 1 / 10 ^ 18\<rparr>"


section \<open>Drawing the arm\<close>

text \<open>
  \<^verbatim>\<open>animate\<close> calls \<^verbatim>\<open>draw\<close> after it has updated the pose. The calls of the canvas in
  \<^verbatim>\<open>draw\<close> either have arguments that do not depend on the pose, or ignore an argument
  that is not a finite number (\<^verbatim>\<open>moveTo\<close>, \<^verbatim>\<open>lineTo\<close>, \<^verbatim>\<open>arc\<close>), with one exception:
  \<^verbatim>\<open>drawRobotArm\<close> draws the gripper with \<^verbatim>\<open>drawSphere\<close> at the projected end of the arm,
  and \<^verbatim>\<open>createRadialGradient\<close> throws a \<^verbatim>\<open>TypeError\<close> when an argument is not a finite
  number. The exception leaves \<^verbatim>\<open>animate\<close> before it registers the next frame. The
  model of \<^verbatim>\<open>draw\<close> is that call: the end of the arm as \<^verbatim>\<open>drawRobotArm\<close> computes it from
  the current position, projected, and the gradient of \<^verbatim>\<open>drawSphere\<close>.
\<close>

datatype error = TypeError

definition js_app :: "(real \<Rightarrow> real) \<Rightarrow> jsval \<Rightarrow> jsval" where
  "js_app f a = (case ToNumber a of None \<Rightarrow> NaN | Some r \<Rightarrow> Num (f r))"

definition Math_atan2 :: "jsval \<Rightarrow> jsval \<Rightarrow> jsval" where
  "Math_atan2 = js_arith (\<lambda>y x. Arg (Complex x y))"

definition project3D_js :: "robot \<Rightarrow> jsval \<Rightarrow> jsval \<Rightarrow> jsval \<Rightarrow> jsval \<times> jsval" where
  "project3D_js st x y z =
     (let sc = Num (scale st);
          screenX = js_add (Num (centerX st))
                      (js_mul (js_mul (js_sub x y) (Num (cos (pi / 6)))) sc);
          screenY = js_sub (js_sub (Num (centerY st))
                              (js_mul (js_mul (js_add x y) (Num (sin (pi / 6)))) sc))
                      (js_mul z sc)
      in (screenX, screenY))"

definition endEffector :: "robot \<Rightarrow> jsval \<times> jsval" where
  "endEffector st =
     (let cp = currentPosition st;
          armLength1 = Num 80; armLength2 = Num 60; armLength3 = Num 40;
          distance = Math_sqrt (js_add (js_mul (vx cp) (vx cp)) (js_mul (vy cp) (vy cp)));
          angle1 = Math_atan2 (vy cp) (vx cp);
          angle2 = js_mul (Math_atan2 (vz cp) distance) (Num (5 / 10));
          angle3 = js_mul angle2 (Num (3 / 10));
          joint1_x = js_mul armLength1 (js_app cos angle1);
          joint1_y = js_mul armLength1 (js_app sin angle1);
          joint1_z = Num 20;
          joint2_x = js_add joint1_x (js_mul armLength2 (js_app cos (js_add angle1 angle2)));
          joint2_y = js_add joint1_y (js_mul armLength2 (js_app sin (js_add angle1 angle2)));
          joint2_z = js_add joint1_z (js_mul armLength2 (js_app sin angle2));
          end_x = js_add joint2_x
                    (js_mul armLength3 (js_app cos (js_add (js_add angle1 angle2) angle3)));
          end_y = js_add joint2_y
                    (js_mul armLength3 (js_app sin (js_add (js_add angle1 angle2) angle3)));
          end_z = js_add joint2_z (js_mul armLength3 (js_app sin angle3))
      in project3D_js st end_x end_y end_z)"

definition createRadialGradient ::
    "jsval \<Rightarrow> jsval \<Rightarrow> jsval \<Rightarrow> jsval \<Rightarrow> jsval \<Rightarrow> jsval \<Rightarrow> error + unit" where
  "createRadialGradient x0 y0 r0 x1 y1 r1 =
     (if is_num x0 \<and> is_num y0 \<and> is_num r0 \<and> is_num x1 \<and> is_num y1 \<and> is_num r1
      then Inr () else Inl TypeError)"

definition drawSphere :: "jsval \<times> jsval \<Rightarrow> real \<Rightarrow> error + unit" where
  "drawSphere pos radius =
     createRadialGradient (js_sub (fst pos) (Num (radius / 3))) (js_sub (snd pos) (Num (radius / 3)))
       (Num 0) (fst pos) (snd pos) (Num radius)"

definition draw :: "robot \<Rightarrow> error + unit" where
  "draw st = drawSphere (endEffector st) 8"



section \<open>Unfolding the engine\<close>

lemmas engine_defs =
  loadCommands_def startExecution_def executeNextCommand_def animate_def
  completeCurrentCommand_def completeExecution_def setTimeout_def markCommandCompleted_def
  fire_def pauseExecution_def stopExecution_def resumeExecution_def field_def js_or_def

lemmas js_defs = js_sub_def js_add_def js_mul_def js_arith_def Math_sqrt_def js_lt_def

lemmas setup_defs = run_def new_RobotVisualizer_def cmd_def origin_def vec_def getState_def


section \<open>The command index stays inside the queue\<close>

lemma index_le_completeCurrentCommand:
  "currentCommandIndex st \<le> length (commandQueue st) \<Longrightarrow>
   currentCommandIndex (completeCurrentCommand st) \<le> length (commandQueue (completeCurrentCommand st))"
  by (simp add: completeCurrentCommand_def setTimeout_def markCommandCompleted_def Let_def)

lemma index_le_executeNextCommand:
  "currentCommandIndex st \<le> length (commandQueue st) \<Longrightarrow>
   currentCommandIndex (executeNextCommand st) \<le> length (commandQueue (executeNextCommand st))"
  by (simp add: executeNextCommand_def completeExecution_def setTimeout_def Let_def)

lemma index_le_animate:
  "currentCommandIndex st \<le> length (commandQueue st) \<Longrightarrow>
   currentCommandIndex (animate st) \<le> length (commandQueue (animate st))"
  by (simp add: animate_def completeCurrentCommand_def setTimeout_def markCommandCompleted_def Let_def)

lemma index_le_fire:
  "currentCommandIndex st \<le> length (commandQueue st) \<Longrightarrow>
   currentCommandIndex (fire st) \<le> length (commandQueue (fire st))"
proof -
  assume le: "currentCommandIndex st \<le> length (commandQueue st)"
  have "currentCommandIndex (run_callback cb (st\<lparr>timers := ts\<rparr>))
          \<le> length (commandQueue (run_callback cb (st\<lparr>timers := ts\<rparr>)))" for cb ts
    using le index_le_completeCurrentCommand [of "st\<lparr>timers := ts\<rparr>"]
      index_le_executeNextCommand [of "st\<lparr>timers := ts\<rparr>"]
    by (cases cb) simp_all
  with le show ?thesis
    by (simp add: fire_def split: option.splits)
qed

lemma index_le_step:
  assumes le: "currentCommandIndex st \<le> length (commandQueue st)"
  shows "currentCommandIndex (step st ev) \<le> length (commandQueue (step st ev))"
proof (cases ev)
  case (LoadCommands cs)
  then show ?thesis by (simp add: loadCommands_def)
next
  case StartExecution
  then show ?thesis
    using le index_le_executeNextCommand
      [of "st\<lparr>isAnimating := True, isPaused := False,
              executionStartTime := Some (clock st), currentCommandIndex := 0\<rparr>"]
    by (auto simp add: startExecution_def)
next
  case PauseExecution
  with le show ?thesis by (simp add: pauseExecution_def)
next
  case ResumeExecution
  with le show ?thesis
    using index_le_executeNextCommand [of "st\<lparr>isPaused := False\<rparr>"]
    by (simp add: resumeExecution_def)
next
  case StopExecution
  with le show ?thesis by (simp add: stopExecution_def)
next
  case Frame
  with le show ?thesis by (simp add: index_le_animate)
next
  case (Elapse d)
  with le show ?thesis by simp
next
  case Timeout
  with le show ?thesis by (simp add: index_le_fire)
qed

lemma index_le_run:
  "currentCommandIndex st \<le> length (commandQueue st) \<Longrightarrow>
   currentCommandIndex (run st evs) \<le> length (commandQueue (run st evs))"
  unfolding run_def
  by (induction evs arbitrary: st) (simp_all add: index_le_step)

text \<open>
  Claim C10. In every state that the engine reaches from its initial state, by any
  sequence of public operations, animation frames and timer callbacks, the command index is
  at most the length of the queue, which is the \<^verbatim>\<open>totalCommands\<close> that \<^verbatim>\<open>getState\<close>
  reports; \<^verbatim>\<open>completeCurrentCommand\<close> adds one to the index when it is strictly below
  the length of the queue and leaves it alone otherwise, whatever the state in which a
  callback finds the engine.
\<close>

theorem index_never_exceeds_queue:
  "currentCommandIndex (run (new_RobotVisualizer w h) evs)
     \<le> length (commandQueue (run (new_RobotVisualizer w h) evs))
   \<and> snap_currentCommandIndex (getState (run (new_RobotVisualizer w h) evs))
     \<le> snap_totalCommands (getState (run (new_RobotVisualizer w h) evs))
   \<and> currentCommandIndex (completeCurrentCommand st)
     = (if currentCommandIndex st < length (commandQueue st)
        then currentCommandIndex st + 1 else currentCommandIndex st)"
proof -
  have "currentCommandIndex (new_RobotVisualizer w h)
          \<le> length (commandQueue (new_RobotVisualizer w h))"
    by (simp add: new_RobotVisualizer_def)
  then have "currentCommandIndex (run (new_RobotVisualizer w h) evs)
     \<le> length (commandQueue (run (new_RobotVisualizer w h) evs))"
    by (rule index_le_run)
  moreover have "currentCommandIndex (completeCurrentCommand st)
     = (if currentCommandIndex st < length (commandQueue st)
        then currentCommandIndex st + 1 else currentCommandIndex st)"
    by (simp add: completeCurrentCommand_def setTimeout_def markCommandCompleted_def Let_def)
  ultimately show ?thesis
    by (simp add: getState_def)
qed


section \<open>Stopping\<close>

text \<open>
  Claim C3, amended. For every prior state, immediately after \<^verbatim>\<open>stopExecution\<close> the gripper
  is open, \<^verbatim>\<open>isAnimating\<close> and \<^verbatim>\<open>isPaused\<close> are false, and \<^verbatim>\<open>currentPosition\<close> and
  \<^verbatim>\<open>targetPosition\<close> are the origin, also as \<^verbatim>\<open>getState\<close> reports the three flags. The
  \<^verbatim>\<open>position\<close> that \<^verbatim>\<open>getState\<close> reports is still the one of the last animation frame;
  it is the origin after the next frame.
\<close>

theorem stopExecution_resets:
  "gripperOpen (stopExecution st) \<and> \<not> isAnimating (stopExecution st)
   \<and> \<not> isPaused (stopExecution st)
   \<and> currentPosition (stopExecution st) = origin
   \<and> targetPosition (stopExecution st) = origin
   \<and> snap_gripperOpen (getState (stopExecution st))
   \<and> \<not> snap_isAnimating (getState (stopExecution st))
   \<and> \<not> snap_isPaused (getState (stopExecution st))
   \<and> snap_position (getState (stopExecution st)) = position st
   \<and> snap_position (getState (animate (stopExecution st))) = origin"
  by (simp add: stopExecution_def getState_def animate_def)

text \<open>
  The claim as stated fails: stopped one frame into a move towards \<open>{10, 0, 0}\<close>, the
  engine reports the position \<open>{0.2, 0, 0}\<close>.
\<close>

theorem stopExecution_position_counterexample:
  "snap_position (getState (run (new_RobotVisualizer 800 600)
      [LoadCommands [cmd ''move_to'' (Some 10) (Some 0) (Some 0) (Some 50)],
       StartExecution, Frame, StopExecution])) = vec (1 / 5) 0 0
   \<and> vec (1 / 5) 0 0 \<noteq> origin"
  by (simp add: engine_defs js_defs setup_defs Let_def)


section \<open>Progress of the command index\<close>

lemma index_mono_completeCurrentCommand:
  "currentCommandIndex st \<le> currentCommandIndex (completeCurrentCommand st)"
  by (simp add: completeCurrentCommand_def setTimeout_def markCommandCompleted_def Let_def)

lemma index_executeNextCommand:
  "currentCommandIndex (executeNextCommand st) = currentCommandIndex st"
  by (simp add: executeNextCommand_def completeExecution_def setTimeout_def Let_def)

lemma index_mono_animate:
  "currentCommandIndex st \<le> currentCommandIndex (animate st)"
  by (simp add: animate_def completeCurrentCommand_def setTimeout_def markCommandCompleted_def Let_def)

lemma index_mono_fire:
  "currentCommandIndex st \<le> currentCommandIndex (fire st)"
proof -
  have "currentCommandIndex st \<le> currentCommandIndex (run_callback cb (st\<lparr>timers := ts\<rparr>))" for cb ts
    using index_mono_completeCurrentCommand [of "st\<lparr>timers := ts\<rparr>"]
    by (cases cb) (simp_all add: index_executeNextCommand)
  then show ?thesis
    by (simp add: fire_def split: option.splits)
qed

text \<open>
  Claim C5, amended. The command index never decreases under an animation frame, a timer
  callback, the passing of time, \<^verbatim>\<open>pauseExecution\<close>, \<^verbatim>\<open>resumeExecution\<close> or
  \<^verbatim>\<open>stopExecution\<close>. Among the public operations, \<^verbatim>\<open>loadCommands\<close> and \<^verbatim>\<open>startExecution\<close> (on
  a queue that is not empty) set it to 0; \<^verbatim>\<open>stopExecution\<close> leaves it as it is.
\<close>

theorem index_monotone_and_resets:
  "(ev \<noteq> StartExecution \<and> (\<forall>cs. ev \<noteq> LoadCommands cs)
      \<longrightarrow> currentCommandIndex st \<le> currentCommandIndex (step st ev))
   \<and> currentCommandIndex (loadCommands cs st) = 0
   \<and> (commandQueue st \<noteq> [] \<longrightarrow> currentCommandIndex (startExecution st) = 0)
   \<and> currentCommandIndex (stopExecution st) = currentCommandIndex st"
proof -
  have "currentCommandIndex st \<le> currentCommandIndex (step st ev)"
    if "ev \<noteq> StartExecution" and "\<forall>cs. ev \<noteq> LoadCommands cs"
    using that
    by (cases ev)
      (simp_all add: pauseExecution_def resumeExecution_def stopExecution_def
        index_executeNextCommand index_mono_animate index_mono_fire)
  moreover have "currentCommandIndex (loadCommands cs st) = 0"
    by (simp add: loadCommands_def)
  moreover have "currentCommandIndex (startExecution st) = 0" if "commandQueue st \<noteq> []"
    using that by (simp add: startExecution_def index_executeNextCommand)
  moreover have "currentCommandIndex (stopExecution st) = currentCommandIndex st"
    by (simp add: stopExecution_def)
  ultimately show ?thesis by blast
qed

lemma after_close_eval:
  "currentCommandIndex after_close = 1 \<and> commandQueue after_close \<noteq> []
   \<and> isAnimating after_close"
  by (simp add: after_close_def engine_defs js_defs setup_defs Let_def)

text \<open>The theorem at the state after a completed \<^verbatim>\<open>close_gripper\<close>, for an animation frame.\<close>

theorem index_monotone_and_resets_witness:
  "Frame \<noteq> StartExecution \<and> (\<forall>cs. Frame \<noteq> LoadCommands cs)
   \<and> commandQueue after_close \<noteq> []
   \<and> currentCommandIndex after_close \<le> currentCommandIndex (step after_close Frame)
   \<and> currentCommandIndex (startExecution after_close) = 0
   \<and> currentCommandIndex (stopExecution after_close) = 1"
  using index_monotone_and_resets [of Frame after_close] after_close_eval
  by simp

text \<open>
  The claim as stated fails: after the only command of a queue has completed the index
  is 1; it is still 1 after \<^verbatim>\<open>stopExecution\<close>, and it is 0 after \<^verbatim>\<open>startExecution\<close>.
\<close>

theorem index_reset_counterexample:
  "currentCommandIndex (run (new_RobotVisualizer 800 600)
      [LoadCommands [cmd ''close_gripper'' None None None None],
       StartExecution, Elapse 1000, Timeout]) = 1
   \<and> currentCommandIndex (run (new_RobotVisualizer 800 600)
      [LoadCommands [cmd ''close_gripper'' None None None None],
       StartExecution, Elapse 1000, Timeout, StopExecution]) = 1
   \<and> currentCommandIndex (run (new_RobotVisualizer 800 600)
      [LoadCommands [cmd ''close_gripper'' None None None None],
       StartExecution, Elapse 1000, Timeout, StartExecution]) = 0"
  by (simp add: engine_defs js_defs setup_defs Let_def)


section \<open>The execution flags\<close>

lemma isPaused_executeNextCommand:
  "isPaused (executeNextCommand st) = isPaused st"
  by (simp add: executeNextCommand_def completeExecution_def setTimeout_def Let_def)

text \<open>
  Claim C6, amended. \<^verbatim>\<open>pauseExecution\<close> sets \<^verbatim>\<open>isPaused\<close> in every state and leaves
  \<^verbatim>\<open>isAnimating\<close> as it is, so that an idle engine can be paused; \<^verbatim>\<open>startExecution\<close> on an
  empty queue changes nothing; \<^verbatim>\<open>startExecution\<close> on a queue that is not empty leaves the
  engine animating and not paused, and \<^verbatim>\<open>stopExecution\<close> leaves it neither animating nor
  paused.
\<close>

theorem pause_and_start_flags:
  "isPaused (pauseExecution st)
   \<and> isAnimating (pauseExecution st) = isAnimating st
   \<and> (commandQueue st = [] \<longrightarrow> startExecution st = st)
   \<and> (commandQueue st \<noteq> [] \<longrightarrow>
        isAnimating (startExecution st) \<and> \<not> isPaused (startExecution st))
   \<and> \<not> isAnimating (stopExecution st) \<and> \<not> isPaused (stopExecution st)"
  by (simp add: pauseExecution_def stopExecution_def startExecution_def
      isPaused_executeNextCommand)
    (simp add: executeNextCommand_def setTimeout_def Let_def)

text \<open>The theorem at the initial state and at the state after a completed command.\<close>

theorem pause_and_start_flags_witness:
  "commandQueue (new_RobotVisualizer 800 600) = []
   \<and> startExecution (new_RobotVisualizer 800 600) = new_RobotVisualizer 800 600
   \<and> commandQueue after_close \<noteq> []
   \<and> isAnimating (startExecution after_close) \<and> \<not> isPaused (startExecution after_close)
   \<and> isPaused (pauseExecution after_close)"
  using pause_and_start_flags [of "new_RobotVisualizer 800 600"]
    pause_and_start_flags [of after_close] after_close_eval
  by (simp add: new_RobotVisualizer_def)

text \<open>
  The claim as stated fails: \<^verbatim>\<open>pauseExecution\<close> on the engine as constructed gives
  \<^verbatim>\<open>isAnimating = false\<close> together with \<^verbatim>\<open>isPaused = true\<close>.
\<close>

theorem paused_while_idle_counterexample:
  "\<not> isAnimating (run (new_RobotVisualizer 800 600) [PauseExecution])
   \<and> isPaused (run (new_RobotVisualizer 800 600) [PauseExecution])"
  by (simp add: engine_defs setup_defs)


section \<open>The projection\<close>

text \<open>
  Claim C8. \<^verbatim>\<open>project3D\<close> depends on its three arguments and on the camera parameters
  \<^verbatim>\<open>centerX\<close>, \<^verbatim>\<open>centerY\<close> and \<^verbatim>\<open>scale\<close> only, and returns
  \<open>screenX = centerX + (x - y) * cos (pi / 6) * scale\<close> and
  \<open>screenY = centerY - (x + y) * sin (pi / 6) * scale - z * scale\<close>, where the cosine of
  30 degrees is \<open>sqrt 3 / 2\<close> and its sine is \<open>1 / 2\<close>; the origin of the world is drawn at \<open>(centerX, centerY)\<close>, which is
  \<open>(width / 2, height - 80)\<close> for a canvas of the given size.
\<close>

theorem project3D_formula:
  "project3D st x y z =
     (centerX st + (x - y) * cos (pi / 6) * scale st,
      centerY st - (x + y) * sin (pi / 6) * scale st - z * scale st)
   \<and> cos (pi / 6) = sqrt 3 / 2 \<and> sin (pi / 6) = 1 / 2
   \<and> project3D st 0 0 0 = (centerX st, centerY st)
   \<and> project3D (new_RobotVisualizer w h) 0 0 0 = (w / 2, h - 80)"
  by (simp add: project3D_def Let_def cos_30 sin_30 new_RobotVisualizer_def)


section \<open>Motion towards the target\<close>

lemma is_num_iff: "is_num v \<longleftrightarrow> (\<exists>r. v = Num r)"
  by (cases v) simp_all

lemma numeric_iff: "numeric v \<longleftrightarrow> (\<exists>a b c. v = vec a b c)"
proof
  assume "numeric v"
  then obtain a b c where "vx v = Num a" "vy v = Num b" "vz v = Num c"
    by (auto simp: numeric_def is_num_iff)
  then have "v = vec a b c" by (simp add: vec_def)
  then show "\<exists>a b c. v = vec a b c" by blast
next
  assume "\<exists>a b c. v = vec a b c"
  then show "numeric v" by (auto simp: numeric_def vec_def)
qed

lemma squares_nonneg: "\<not> (x * x + y * y + z * z < (0::real))"
  by (simp add: not_less add_nonneg_nonneg)

lemma distance_vec:
  "currentPosition st = vec a b c \<Longrightarrow> targetPosition st = vec p q r \<Longrightarrow>
   distance st = Num (gap a b c p q r)"
  by (simp add: distance_def vec_def js_defs gap_def Let_def squares_nonneg)

lemma animate_far:
  assumes "isAnimating st" "currentPosition st = vec a b c" "targetPosition st = vec p q r"
    and "\<not> gap a b c p q r < 2"
  shows "animate st =
    st\<lparr>currentPosition := vec (a + (p - a) * animationSpeed st) (b + (q - b) * animationSpeed st)
                               (c + (r - c) * animationSpeed st),
       position := vec (a + (p - a) * animationSpeed st) (b + (q - b) * animationSpeed st)
                       (c + (r - c) * animationSpeed st)\<rparr>"
  using assms
  by (simp add: animate_def vec_def js_defs gap_def Let_def squares_nonneg)

lemma animate_near:
  assumes "isAnimating st" "currentPosition st = vec a b c" "targetPosition st = vec p q r"
    and "gap a b c p q r < 2"
  shows "animate st =
    (completeCurrentCommand (st\<lparr>currentPosition := vec p q r\<rparr>))\<lparr>position := vec p q r\<rparr>"
  using assms
  by (simp add: animate_def vec_def js_defs gap_def Let_def squares_nonneg
      completeCurrentCommand_def setTimeout_def markCommandCompleted_def)


subsection \<open>Ticks with rounded arithmetic\<close>

lemma animate_exact: "animate_fl (\<lambda>x. x) st = animate st"
proof -
  have id: "js_fl (\<lambda>x. x) v = v" if "v \<noteq> Undefined" for v
    using that by (cases v) (simp_all add: js_fl_def)
  have a: "js_arith f a b \<noteq> Undefined" for f a b
    by (simp add: js_arith_def split: option.splits)
  have m: "Math_sqrt a \<noteq> Undefined" for a
    by (simp add: Math_sqrt_def split: option.splits)
  show ?thesis
    by (simp add: animate_fl_def animate_def Let_def id a m js_add_def js_sub_def js_mul_def)
qed

lemma rounds_exact: "rounds (\<lambda>x. x)"
  by (simp add: rounds_def)

lemma roundsD:
  assumes "rounds fl"
  shows "\<bar>x\<bar> \<le> 10 ^ 20 \<Longrightarrow> \<bar>fl x - x\<bar> \<le> (\<bar>x\<bar> + 1) / 10 ^ 15"
    and "0 \<le> x \<Longrightarrow> 0 \<le> fl x"
  using assms by (simp_all add: rounds_def)

lemma squares_nonneg_fl:
  assumes "rounds fl"
  shows "0 \<le> squares fl ex ey ez"
  unfolding squares_def
  by (intro roundsD(2) [OF assms] add_nonneg_nonneg) simp_all

lemma measured_vec:
  assumes "rounds fl" "currentPosition st = vec a b c" "targetPosition st = vec p q r"
  shows "measured fl st = Num (seen fl (p - a) (q - b) (r - c))"
  using assms squares_nonneg_fl [OF assms(1), of "p - a" "q - b" "r - c"]
  by (simp add: measured_def vec_def js_defs js_fl_def seen_def squares_def Let_def not_less)

lemma animate_fl_far:
  assumes "rounds fl" "isAnimating st" "currentPosition st = vec a b c"
    "targetPosition st = vec p q r" and "\<not> seen fl (p - a) (q - b) (r - c) < 2"
  shows "animate_fl fl st =
    st\<lparr>currentPosition := vec (approach fl (animationSpeed st) p a)
                               (approach fl (animationSpeed st) q b)
                               (approach fl (animationSpeed st) r c),
       position := vec (approach fl (animationSpeed st) p a)
                       (approach fl (animationSpeed st) q b)
                       (approach fl (animationSpeed st) r c)\<rparr>"
  using assms squares_nonneg_fl [OF assms(1), of "p - a" "q - b" "r - c"]
  by (simp add: animate_fl_def vec_def js_defs js_fl_def seen_def squares_def approach_def
      Let_def not_less)

lemma animate_fl_near:
  assumes "rounds fl" "isAnimating st" "currentPosition st = vec a b c"
    "targetPosition st = vec p q r" and "seen fl (p - a) (q - b) (r - c) < 2"
  shows "animate_fl fl st =
    (completeCurrentCommand (st\<lparr>currentPosition := vec p q r\<rparr>))\<lparr>position := vec p q r\<rparr>"
  using assms squares_nonneg_fl [OF assms(1), of "p - a" "q - b" "r - c"]
  by (simp add: animate_fl_def vec_def js_defs js_fl_def seen_def squares_def Let_def not_less
      completeCurrentCommand_def setTimeout_def markCommandCompleted_def)


lemma rounds_crude:
  assumes "rounds fl" and "\<bar>x\<bar> \<le> 10"
  shows "\<bar>fl x - x\<bar> \<le> 1 / 1000"
proof -
  from assms(2) have "\<bar>x\<bar> \<le> 10 ^ 20" by simp
  from roundsD(1) [OF assms(1) this] have "\<bar>fl x - x\<bar> \<le> (\<bar>x\<bar> + 1) / 10 ^ 15" .
  also from assms(2) have "\<dots> \<le> 1 / 1000" by simp
  finally show ?thesis .
qed

lemma approach_close:
  assumes fl: "rounds fl" and t: "\<bar>t\<bar> \<le> 10 ^ 6" and e: "\<bar>t - c\<bar> \<le> 2 * 10 ^ 6 + 1"
    and s: "3 / 10 ^ 4 \<le> s" "s \<le> 2 - 3 / 10 ^ 4"
  shows "\<bar>t - approach fl s t c\<bar> \<le> (1 - 3 / 10 ^ 4) * \<bar>t - c\<bar> + 2 / 10 ^ 8"
proof -
  define e where "e = t - c"
  define d where "d = fl e"
  define m where "m = d * s"
  define g where "g = fl m"
  define w where "w = c + g"
  have t': "\<bar>t\<bar> \<le> 1000000" using t by simp
  have e': "\<bar>e\<bar> \<le> 2000001" using e by (simp add: e_def)
  have s': "3 / 10000 \<le> s" "s \<le> 2 - 3 / 10000" using s by simp_all
  have s0: "0 \<le> s" "s \<le> 2" using s' by simp_all
  from e' have "\<bar>e\<bar> \<le> 10 ^ 20" by simp
  from roundsD(1) [OF fl this] have "\<bar>d - e\<bar> \<le> (\<bar>e\<bar> + 1) / 10 ^ 15"
    by (simp add: d_def)
  with e' have de: "\<bar>d - e\<bar> \<le> 3 / 1000000000" by simp
  with e' have d': "\<bar>d\<bar> \<le> 2000002" by linarith
  have "\<bar>m\<bar> = \<bar>d\<bar> * s" using s0 by (simp add: m_def abs_mult)
  also have "\<dots> \<le> 2000002 * 2"
    using d' s0 by (intro mult_mono) simp_all
  finally have m': "\<bar>m\<bar> \<le> 4000004" by simp
  then have "\<bar>m\<bar> \<le> 10 ^ 20" by simp
  from roundsD(1) [OF fl this] have "\<bar>g - m\<bar> \<le> (\<bar>m\<bar> + 1) / 10 ^ 15"
    by (simp add: g_def)
  with m' have gm: "\<bar>g - m\<bar> \<le> 5 / 1000000000" by simp
  with m' have g': "\<bar>g\<bar> \<le> 4000005" by linarith
  have "c = t - e" by (simp add: e_def)
  with t' e' have c': "\<bar>c\<bar> \<le> 3000001" by linarith
  with g' have w': "\<bar>w\<bar> \<le> 8000000" unfolding w_def by linarith
  then have "\<bar>w\<bar> \<le> 10 ^ 20" by simp
  from roundsD(1) [OF fl this] have "\<bar>fl w - w\<bar> \<le> (\<bar>w\<bar> + 1) / 10 ^ 15" .
  with w' have fw: "\<bar>fl w - w\<bar> \<le> 9 / 1000000000" by simp
  have "\<bar>(d - e) * s\<bar> = \<bar>d - e\<bar> * s" using s0 by (simp add: abs_mult)
  also have "\<dots> \<le> 3 / 1000000000 * 2"
    using de s0 by (intro mult_mono) simp_all
  finally have des: "\<bar>(d - e) * s\<bar> \<le> 6 / 1000000000" by simp
  have "\<bar>1 - s\<bar> \<le> 1 - 3 / 10000" using s' by linarith
  then have "\<bar>e\<bar> * \<bar>1 - s\<bar> \<le> \<bar>e\<bar> * (1 - 3 / 10000)"
    by (intro mult_left_mono) simp_all
  then have es: "\<bar>e * (1 - s)\<bar> \<le> \<bar>e\<bar> * (1 - 3 / 10000)"
    by (simp add: abs_mult)
  have "t - fl w = e * (1 - s) - (d - e) * s - (g - m) - (fl w - w)"
    by (simp add: e_def m_def w_def algebra_simps)
  with es des gm fw have "\<bar>t - fl w\<bar> \<le> \<bar>e\<bar> * (1 - 3 / 10000) + 2 / 100000000"
    by linarith
  moreover have "approach fl s t c = fl w"
    by (simp add: approach_def w_def g_def m_def d_def e_def)
  ultimately show ?thesis
    by (simp add: e_def mult.commute)
qed


lemma square_rounded:
  assumes fl: "rounds fl" and x: "\<bar>x\<bar> \<le> 2"
  shows "0 \<le> fl (fl x * fl x)" and "fl (fl x * fl x) \<le> x * x + 1 / 100"
proof -
  define d where "d = fl x"
  from x have "\<bar>x\<bar> \<le> 10" by simp
  from rounds_crude [OF fl this] have dx: "\<bar>d - x\<bar> \<le> 1 / 1000" by (simp add: d_def)
  with x have d: "\<bar>d\<bar> \<le> 3" by linarith
  have "\<bar>d * d - x * x\<bar> = \<bar>d - x\<bar> * \<bar>d + x\<bar>"
    by (simp add: abs_mult [symmetric] algebra_simps)
  also have "\<dots> \<le> 1 / 1000 * 5"
  proof (intro mult_mono)
    show "\<bar>d + x\<bar> \<le> 5" using d x by linarith
  qed (use dx in simp_all)
  finally have dd: "\<bar>d * d - x * x\<bar> \<le> 5 / 1000" by simp
  have "\<bar>d * d\<bar> = \<bar>d\<bar> * \<bar>d\<bar>" by (simp add: abs_mult)
  also have "\<dots> \<le> 3 * 3" using d by (intro mult_mono) simp_all
  finally have "\<bar>d * d\<bar> \<le> 10" by simp
  from rounds_crude [OF fl this] have "\<bar>fl (d * d) - d * d\<bar> \<le> 1 / 1000" by simp
  with dd have "fl (d * d) \<le> x * x + 1 / 100" by linarith
  then show "fl (fl x * fl x) \<le> x * x + 1 / 100" by (simp add: d_def)
  show "0 \<le> fl (fl x * fl x)"
    by (rule roundsD(2) [OF fl]) simp
qed

lemma seen_small:
  assumes fl: "rounds fl" and D: "ex * ex + ey * ey + ez * ez \<le> 3"
  shows "seen fl ex ey ez < 2"
proof -
  have small: "\<bar>v\<bar> \<le> 2" if "v * v \<le> 3" for v :: real
  proof -
    from that have "v\<^sup>2 \<le> 2\<^sup>2" by (simp add: power2_eq_square)
    then have "\<bar>v\<bar> \<le> \<bar>2::real\<bar>" by (simp only: abs_le_square_iff)
    then show ?thesis by simp
  qed
  have sq: "0 \<le> v * v" for v :: real by simp
  from D sq [of ex] sq [of ey] sq [of ez]
  have "ex * ex \<le> 3" "ey * ey \<le> 3" "ez * ez \<le> 3" by linarith+
  then have b: "\<bar>ex\<bar> \<le> 2" "\<bar>ey\<bar> \<le> 2" "\<bar>ez\<bar> \<le> 2" by (simp_all add: small)
  define q1 where "q1 = fl (fl ex * fl ex)"
  define q2 where "q2 = fl (fl ey * fl ey)"
  define q3 where "q3 = fl (fl ez * fl ez)"
  note r1 = square_rounded [OF fl b(1), folded q1_def]
  note r2 = square_rounded [OF fl b(2), folded q2_def]
  note r3 = square_rounded [OF fl b(3), folded q3_def]
  define s2 where "s2 = fl (q1 + q2)"
  from r1 r2 D sq [of ez] have "0 \<le> q1 + q2" "q1 + q2 \<le> 4" by linarith+
  then have "\<bar>q1 + q2\<bar> \<le> 10" by simp
  from rounds_crude [OF fl this] have e2: "\<bar>s2 - (q1 + q2)\<bar> \<le> 1 / 1000" by (simp add: s2_def)
  have p2: "0 \<le> s2" unfolding s2_def using \<open>0 \<le> q1 + q2\<close> by (rule roundsD(2) [OF fl])
  define s3 where "s3 = fl (s2 + q3)"
  from e2 r1 r2 r3 D p2 have "0 \<le> s2 + q3" "s2 + q3 \<le> 4" by linarith+
  then have "\<bar>s2 + q3\<bar> \<le> 10" by simp
  from rounds_crude [OF fl this] have e3: "\<bar>s3 - (s2 + q3)\<bar> \<le> 1 / 1000" by (simp add: s3_def)
  have p3: "0 \<le> s3" unfolding s3_def using \<open>0 \<le> s2 + q3\<close> by (rule roundsD(2) [OF fl])
  from e3 e2 r1 r2 r3 D have "s3 \<le> 49 / 16" by linarith
  then have "sqrt s3 \<le> sqrt (49 / 16)" by simp
  also have "sqrt (49 / 16) = 7 / 4"
    by (rule real_sqrt_unique) (simp_all add: power2_eq_square)
  finally have r: "sqrt s3 \<le> 7 / 4" .
  moreover have "0 \<le> sqrt s3" using p3 by simp
  ultimately have "\<bar>sqrt s3\<bar> \<le> 10" by simp
  from rounds_crude [OF fl this] r have "fl (sqrt s3) < 2" by linarith
  then show ?thesis
    by (simp add: seen_def squares_def s3_def s2_def q1_def q2_def q3_def)
qed

lemma square_contract:
  fixes x y :: real
  assumes "\<bar>y\<bar> \<le> (1 - 3 / 10 ^ 4) * \<bar>x\<bar> + 2 / 10 ^ 8"
  shows "y * y \<le> (9995 / 10000) * (x * x) + 3 / 100000000"
proof -
  define a where "a = \<bar>x\<bar>"
  define X where "X = x * x"
  define Y where "Y = y * y"
  have a: "0 \<le> a" by (simp add: a_def)
  have X: "0 \<le> X" "a * a = X" by (simp_all add: X_def a_def)
  from assms have y: "\<bar>y\<bar> \<le> 9997 / 10000 * a + 2 / 100000000" by (simp add: a_def)
  have "Y = \<bar>y\<bar> * \<bar>y\<bar>" by (simp add: Y_def)
  also have "\<dots> \<le> (9997 / 10000 * a + 2 / 100000000) * (9997 / 10000 * a + 2 / 100000000)"
    using y a by (intro mult_mono) simp_all
  also have "\<dots> = 99940009 / 100000000 * (a * a) + 9997 / 250000000000 * a
                    + 1 / 2500000000000000"
    by (simp add: algebra_simps)
  finally have 1: "Y \<le> 99940009 / 100000000 * X + 9997 / 250000000000 * a
                    + 1 / 2500000000000000"
    by (simp only: X)
  have "0 \<le> (a - 1) * (a - 1)" by simp
  then have "2 * a \<le> a * a + 1" by (simp add: algebra_simps)
  then have 2: "2 * a \<le> X + 1" by (simp only: X)
  from 1 2 X(1) have "Y \<le> 9995 / 10000 * X + 3 / 100000000" by linarith
  then show ?thesis by (simp only: X_def Y_def)
qed

lemma squares_decrease:
  fixes x y z x' y' z' :: real
  assumes "\<bar>x'\<bar> \<le> (1 - 3 / 10 ^ 4) * \<bar>x\<bar> + 2 / 10 ^ 8"
    and "\<bar>y'\<bar> \<le> (1 - 3 / 10 ^ 4) * \<bar>y\<bar> + 2 / 10 ^ 8"
    and "\<bar>z'\<bar> \<le> (1 - 3 / 10 ^ 4) * \<bar>z\<bar> + 2 / 10 ^ 8"
    and "3 < x * x + y * y + z * z"
  shows "x' * x' + y' * y' + z' * z' < x * x + y * y + z * z"
  using square_contract [OF assms(1)] square_contract [OF assms(2)]
    square_contract [OF assms(3)] assms(4)
  by linarith

lemma approach_stays:
  assumes fl: "rounds fl" and t: "\<bar>t\<bar> \<le> 10 ^ 6" and e: "\<bar>t - c\<bar> \<le> 2 * 10 ^ 6 + 1"
    and s: "3 / 10 ^ 4 \<le> s" "s \<le> 2 - 3 / 10 ^ 4"
  shows "\<bar>t - approach fl s t c\<bar> \<le> 2 * 10 ^ 6 + 1"
proof -
  from approach_close [OF assms]
  have "\<bar>t - approach fl s t c\<bar> \<le> 9997 / 10000 * \<bar>t - c\<bar> + 2 / 100000000" by simp
  moreover from e have "\<bar>t - c\<bar> \<le> 2000001" by simp
  then have "9997 / 10000 * \<bar>t - c\<bar> \<le> 9997 / 10000 * 2000001"
    by (intro mult_left_mono) simp_all
  ultimately have "\<bar>t - approach fl s t c\<bar> \<le> 9997 / 10000 * 2000001 + 2 / 100000000"
    by (rule order_trans [OF _ add_right_mono])
  then show ?thesis by simp
qed

lemma tracking_animate_fl:
  assumes fl: "rounds fl" and tr: "tracking st p q r"
  shows "tracking (animate_fl fl st) p q r"
proof -
  from tr obtain a b c where cur: "currentPosition st = vec a b c"
    and e: "\<bar>p - a\<bar> \<le> 2 * 10 ^ 6 + 1" "\<bar>q - b\<bar> \<le> 2 * 10 ^ 6 + 1" "\<bar>r - c\<bar> \<le> 2 * 10 ^ 6 + 1"
    by (auto simp: tracking_def)
  from tr have an: "isAnimating st" and tgt: "targetPosition st = vec p q r"
    and t: "\<bar>p\<bar> \<le> 10 ^ 6" "\<bar>q\<bar> \<le> 10 ^ 6" "\<bar>r\<bar> \<le> 10 ^ 6"
    and s: "3 / 10 ^ 4 \<le> animationSpeed st" "animationSpeed st \<le> 2 - 3 / 10 ^ 4"
    by (simp_all add: tracking_def)
  show ?thesis
  proof (cases "seen fl (p - a) (q - b) (r - c) < 2")
    case True
    have "currentPosition (animate_fl fl st) = vec p q r"
      "isAnimating (animate_fl fl st)" "targetPosition (animate_fl fl st) = vec p q r"
      "animationSpeed (animate_fl fl st) = animationSpeed st"
      using animate_fl_near [OF fl an cur tgt True] an tgt
      by (simp_all add: completeCurrentCommand_def setTimeout_def markCommandCompleted_def Let_def)
    then show ?thesis
      unfolding tracking_def using t s
      by (intro conjI exI [of _ p] exI [of _ q] exI [of _ r]) simp_all
  next
    case False
    let ?s = "animationSpeed st"
    have "currentPosition (animate_fl fl st)
            = vec (approach fl ?s p a) (approach fl ?s q b) (approach fl ?s r c)"
      "isAnimating (animate_fl fl st)" "targetPosition (animate_fl fl st) = vec p q r"
      "animationSpeed (animate_fl fl st) = ?s"
      using animate_fl_far [OF fl an cur tgt False] an tgt by simp_all
    then show ?thesis
      unfolding tracking_def
      using t s approach_stays [OF fl t(1) e(1) s] approach_stays [OF fl t(2) e(2) s]
        approach_stays [OF fl t(3) e(3) s]
      by (intro conjI exI [of _ "approach fl ?s p a"] exI [of _ "approach fl ?s q b"]
          exI [of _ "approach fl ?s r c"]) simp_all
  qed
qed

lemma tracking_funpow:
  "rounds fl \<Longrightarrow> tracking st p q r \<Longrightarrow> tracking ((animate_fl fl ^^ k) st) p q r"
  by (induction k) (simp_all add: tracking_animate_fl)

lemma gap_squares: "gap a b c p q r = sqrt ((p - a) * (p - a) + (q - b) * (q - b) + (r - c) * (r - c))"
  by (simp add: gap_def)

lemma distance_decreases_fl:
  assumes fl: "rounds fl" and tr: "tracking st p q r"
    and pos: "js_lt (Num 0) (distance st)"
  shows "js_lt (distance (animate_fl fl st)) (distance st)"
proof -
  from tr obtain a b c where cur: "currentPosition st = vec a b c"
    and e: "\<bar>p - a\<bar> \<le> 2 * 10 ^ 6 + 1" "\<bar>q - b\<bar> \<le> 2 * 10 ^ 6 + 1" "\<bar>r - c\<bar> \<le> 2 * 10 ^ 6 + 1"
    by (auto simp: tracking_def)
  from tr have an: "isAnimating st" and tgt: "targetPosition st = vec p q r"
    and t: "\<bar>p\<bar> \<le> 10 ^ 6" "\<bar>q\<bar> \<le> 10 ^ 6" "\<bar>r\<bar> \<le> 10 ^ 6"
    and s: "3 / 10 ^ 4 \<le> animationSpeed st" "animationSpeed st \<le> 2 - 3 / 10 ^ 4"
    by (simp_all add: tracking_def)
  from pos have g: "0 < gap a b c p q r"
    by (simp add: distance_vec [OF cur tgt] js_lt_def)
  show ?thesis
  proof (cases "seen fl (p - a) (q - b) (r - c) < 2")
    case True
    have "currentPosition (animate_fl fl st) = vec p q r"
      "targetPosition (animate_fl fl st) = vec p q r"
      using animate_fl_near [OF fl an cur tgt True] tgt
      by (simp_all add: completeCurrentCommand_def setTimeout_def markCommandCompleted_def Let_def)
    then have "distance (animate_fl fl st) = Num (gap p q r p q r)"
      by (rule distance_vec)
    with g show ?thesis
      by (simp add: distance_vec [OF cur tgt] js_lt_def) (simp add: gap_def)
  next
    case False
    let ?s = "animationSpeed st"
    let ?a = "approach fl ?s p a" and ?b = "approach fl ?s q b" and ?c = "approach fl ?s r c"
    have "currentPosition (animate_fl fl st) = vec ?a ?b ?c"
      "targetPosition (animate_fl fl st) = vec p q r"
      using animate_fl_far [OF fl an cur tgt False] tgt by simp_all
    then have d': "distance (animate_fl fl st) = Num (gap ?a ?b ?c p q r)"
      by (rule distance_vec)
    have big: "3 < (p - a) * (p - a) + (q - b) * (q - b) + (r - c) * (r - c)"
    proof (rule ccontr)
      assume "\<not> 3 < (p - a) * (p - a) + (q - b) * (q - b) + (r - c) * (r - c)"
      then have "(p - a) * (p - a) + (q - b) * (q - b) + (r - c) * (r - c) \<le> 3" by simp
      from seen_small [OF fl this] False show False by simp
    qed
    have "(p - ?a) * (p - ?a) + (q - ?b) * (q - ?b) + (r - ?c) * (r - ?c)
          < (p - a) * (p - a) + (q - b) * (q - b) + (r - c) * (r - c)"
      using approach_close [OF fl t(1) e(1) s] approach_close [OF fl t(2) e(2) s]
        approach_close [OF fl t(3) e(3) s] big
      by (rule squares_decrease)
    then have "gap ?a ?b ?c p q r < gap a b c p q r"
      unfolding gap_squares by (simp only: real_sqrt_less_iff)
    then show ?thesis
      by (simp add: d' distance_vec [OF cur tgt] js_lt_def)
  qed
qed


lemma limited_iff: "limited b v \<longleftrightarrow> (\<exists>r. v = Num r \<and> \<bar>r\<bar> \<le> b)"
  by (cases v) simp_all

lemma inside_iff:
  "inside b v \<longleftrightarrow> (\<exists>x y z. v = vec x y z \<and> \<bar>x\<bar> \<le> b \<and> \<bar>y\<bar> \<le> b \<and> \<bar>z\<bar> \<le> b)"
proof
  assume "inside b v"
  then obtain x y z where "vx v = Num x" "vy v = Num y" "vz v = Num z"
    and b: "\<bar>x\<bar> \<le> b" "\<bar>y\<bar> \<le> b" "\<bar>z\<bar> \<le> b"
    by (auto simp: inside_def limited_iff)
  then have "v = vec x y z" by (simp add: vec_def)
  with b show "\<exists>x y z. v = vec x y z \<and> \<bar>x\<bar> \<le> b \<and> \<bar>y\<bar> \<le> b \<and> \<bar>z\<bar> \<le> b" by blast
next
  assume "\<exists>x y z. v = vec x y z \<and> \<bar>x\<bar> \<le> b \<and> \<bar>y\<bar> \<le> b \<and> \<bar>z\<bar> \<le> b"
  then show "inside b v" by (auto simp: inside_def vec_def)
qed

lemma vec_eq: "vec a b c = vec a' b' c' \<longleftrightarrow> a = a' \<and> b = b' \<and> c = c'"
  by (simp add: vec_def)

lemma trackingI:
  assumes "isAnimating st" and "targetPosition st = vec p q r"
    and "\<bar>p\<bar> \<le> 10 ^ 6" "\<bar>q\<bar> \<le> 10 ^ 6" "\<bar>r\<bar> \<le> 10 ^ 6"
    and "inside (10 ^ 6) (currentPosition st)"
    and "3 / 10 ^ 4 \<le> animationSpeed st" "animationSpeed st \<le> 2 - 3 / 10 ^ 4"
  shows "tracking st p q r"
proof -
  from assms(6) obtain a b c where cur: "currentPosition st = vec a b c"
    and b: "\<bar>a\<bar> \<le> 10 ^ 6" "\<bar>b\<bar> \<le> 10 ^ 6" "\<bar>c\<bar> \<le> 10 ^ 6"
    by (auto simp: inside_iff)
  from b assms(3-5)
  have "\<bar>p - a\<bar> \<le> 2 * 10 ^ 6 + 1" "\<bar>q - b\<bar> \<le> 2 * 10 ^ 6 + 1" "\<bar>r - c\<bar> \<le> 2 * 10 ^ 6 + 1"
    by simp_all
  with cur assms(1-5,7,8) show ?thesis
    unfolding tracking_def
    by (intro conjI exI [of _ a] exI [of _ b] exI [of _ c]) simp_all
qed

lemma small_errors_near:
  assumes fl: "rounds fl" and "\<bar>ex\<bar> \<le> 1" "\<bar>ey\<bar> \<le> 1" "\<bar>ez\<bar> \<le> 1"
  shows "seen fl ex ey ez < 2"
proof -
  have "v * v \<le> 1" if "\<bar>v\<bar> \<le> 1" for v :: real
  proof -
    have "v * v = \<bar>v\<bar> * \<bar>v\<bar>" by simp
    also have "\<dots> \<le> 1 * 1" using that by (intro mult_mono) simp_all
    finally show ?thesis by simp
  qed
  with assms(2-4) have "ex * ex \<le> 1" "ey * ey \<le> 1" "ez * ez \<le> 1" by simp_all
  then have "ex * ex + ey * ey + ez * ez \<le> 3" by linarith
  then show ?thesis by (rule seen_small [OF fl])
qed

lemma snap_within_fl:
  assumes fl: "rounds fl"
  shows "tracking st p q r \<Longrightarrow> currentPosition st = vec a b c \<Longrightarrow>
         \<bar>p - a\<bar> \<le> \<rho> \<Longrightarrow> \<bar>q - b\<bar> \<le> \<rho> \<Longrightarrow> \<bar>r - c\<bar> \<le> \<rho> \<Longrightarrow>
         (9999 / 10000) ^ k * \<rho> \<le> 1 \<Longrightarrow>
         \<exists>n\<le>k. (\<forall>j<n. \<not> js_lt (measured fl ((animate_fl fl ^^ j) st)) (Num 2))
              \<and> js_lt (measured fl ((animate_fl fl ^^ n) st)) (Num 2)
              \<and> currentPosition ((animate_fl fl ^^ Suc n) st) = vec p q r
              \<and> position ((animate_fl fl ^^ Suc n) st) = vec p q r"
proof (induction k arbitrary: st a b c \<rho>)
  case 0
  note cur = "0.prems"(2)
  from "0.prems"(1) have an: "isAnimating st" and tgt: "targetPosition st = vec p q r"
    by (simp_all add: tracking_def)
  from "0.prems"(3-6) have "\<bar>p - a\<bar> \<le> 1" "\<bar>q - b\<bar> \<le> 1" "\<bar>r - c\<bar> \<le> 1" by simp_all
  then have near: "seen fl (p - a) (q - b) (r - c) < 2"
    by (rule small_errors_near [OF fl])
  have "js_lt (measured fl st) (Num 2)"
    using near by (simp add: measured_vec [OF fl cur tgt] js_lt_def)
  moreover have "currentPosition (animate_fl fl st) = vec p q r
      \<and> position (animate_fl fl st) = vec p q r"
    using animate_fl_near [OF fl an cur tgt near]
    by (simp add: completeCurrentCommand_def setTimeout_def markCommandCompleted_def Let_def)
  ultimately show ?case by simp
next
  case (Suc k)
  note tr = Suc.prems(1) and cur = Suc.prems(2)
  from tr have an: "isAnimating st" and tgt: "targetPosition st = vec p q r"
    and t: "\<bar>p\<bar> \<le> 10 ^ 6" "\<bar>q\<bar> \<le> 10 ^ 6" "\<bar>r\<bar> \<le> 10 ^ 6"
    and s: "3 / 10 ^ 4 \<le> animationSpeed st" "animationSpeed st \<le> 2 - 3 / 10 ^ 4"
    by (simp_all add: tracking_def)
  from tr cur
  have e: "\<bar>p - a\<bar> \<le> 2 * 10 ^ 6 + 1" "\<bar>q - b\<bar> \<le> 2 * 10 ^ 6 + 1" "\<bar>r - c\<bar> \<le> 2 * 10 ^ 6 + 1"
    by (auto simp: tracking_def vec_eq)
  show ?case
  proof (cases "seen fl (p - a) (q - b) (r - c) < 2")
    case True
    have "js_lt (measured fl st) (Num 2)"
      using True by (simp add: measured_vec [OF fl cur tgt] js_lt_def)
    moreover have "currentPosition (animate_fl fl st) = vec p q r
        \<and> position (animate_fl fl st) = vec p q r"
      using animate_fl_near [OF fl an cur tgt True]
      by (simp add: completeCurrentCommand_def setTimeout_def markCommandCompleted_def Let_def)
    ultimately have "(\<forall>j<0. \<not> js_lt (measured fl ((animate_fl fl ^^ j) st)) (Num 2))
              \<and> js_lt (measured fl ((animate_fl fl ^^ 0) st)) (Num 2)
              \<and> currentPosition ((animate_fl fl ^^ Suc 0) st) = vec p q r
              \<and> position ((animate_fl fl ^^ Suc 0) st) = vec p q r"
      by simp
    then show ?thesis by blast
  next
    case False
    let ?s = "animationSpeed st"
    let ?a = "approach fl ?s p a" and ?b = "approach fl ?s q b" and ?c = "approach fl ?s r c"
    let ?st = "animate_fl fl st"
    have big: "1 < \<rho>"
    proof (rule ccontr)
      assume "\<not> 1 < \<rho>"
      with Suc.prems(3-5) have "\<bar>p - a\<bar> \<le> 1" "\<bar>q - b\<bar> \<le> 1" "\<bar>r - c\<bar> \<le> 1" by simp_all
      from small_errors_near [OF fl this] False show False by simp
    qed
    have shrink: "\<bar>t - approach fl ?s t v\<bar> \<le> 9999 / 10000 * \<rho>"
      if "\<bar>t\<bar> \<le> 10 ^ 6" "\<bar>t - v\<bar> \<le> 2 * 10 ^ 6 + 1" "\<bar>t - v\<bar> \<le> \<rho>" for t v
    proof -
      from approach_close [OF fl that(1,2) s]
      have "\<bar>t - approach fl ?s t v\<bar> \<le> 9997 / 10000 * \<bar>t - v\<bar> + 2 / 100000000" by simp
      moreover from that(3) have "9997 / 10000 * \<bar>t - v\<bar> \<le> 9997 / 10000 * \<rho>"
        by (intro mult_left_mono) simp_all
      ultimately show ?thesis using big by linarith
    qed
    have cur': "currentPosition ?st = vec ?a ?b ?c"
      using animate_fl_far [OF fl an cur tgt False] by simp
    have tr': "tracking ?st p q r"
      using fl tr by (rule tracking_animate_fl)
    have "(9999 / 10000) ^ k * (9999 / 10000 * \<rho>) \<le> 1"
      using Suc.prems(6) by (simp add: mult_ac)
    from Suc.IH [OF tr' cur' shrink [OF t(1) e(1) Suc.prems(3)]
        shrink [OF t(2) e(2) Suc.prems(4)] shrink [OF t(3) e(3) Suc.prems(5)] this]
    obtain n where n: "n \<le> k"
      "\<forall>j<n. \<not> js_lt (measured fl ((animate_fl fl ^^ j) ?st)) (Num 2)"
      "js_lt (measured fl ((animate_fl fl ^^ n) ?st)) (Num 2)"
      "currentPosition ((animate_fl fl ^^ Suc n) ?st) = vec p q r"
      "position ((animate_fl fl ^^ Suc n) ?st) = vec p q r"
      by blast
    have far: "\<not> js_lt (measured fl st) (Num 2)"
      using False by (simp add: measured_vec [OF fl cur tgt] js_lt_def)
    have "\<forall>j<Suc n. \<not> js_lt (measured fl ((animate_fl fl ^^ j) st)) (Num 2)"
    proof (intro allI impI)
      fix j assume "j < Suc n"
      show "\<not> js_lt (measured fl ((animate_fl fl ^^ j) st)) (Num 2)"
      proof (cases j)
        case 0
        with far show ?thesis by simp
      next
        case (Suc i)
        with \<open>j < Suc n\<close> n(2) show ?thesis by (simp add: funpow_swap1)
      qed
    qed
    moreover have "js_lt (measured fl ((animate_fl fl ^^ Suc n) st)) (Num 2)"
      using n(3) by (simp add: funpow_swap1)
    moreover have "currentPosition ((animate_fl fl ^^ Suc (Suc n)) st) = vec p q r"
      "position ((animate_fl fl ^^ Suc (Suc n)) st) = vec p q r"
      using n(4,5) by (simp_all add: funpow_swap1)
    ultimately show ?thesis using n(1) by (intro exI [of _ "Suc n"]) simp
  qed
qed

lemma snap_eventually_fl:
  assumes fl: "rounds fl" and tr: "tracking st p q r"
  shows "\<exists>n. (\<forall>j<n. \<not> js_lt (measured fl ((animate_fl fl ^^ j) st)) (Num 2))
              \<and> js_lt (measured fl ((animate_fl fl ^^ n) st)) (Num 2)
              \<and> currentPosition ((animate_fl fl ^^ Suc n) st) = vec p q r
              \<and> position ((animate_fl fl ^^ Suc n) st) = vec p q r"
proof -
  from tr obtain a b c where cur: "currentPosition st = vec a b c"
    and e: "\<bar>p - a\<bar> \<le> 2 * 10 ^ 6 + 1" "\<bar>q - b\<bar> \<le> 2 * 10 ^ 6 + 1" "\<bar>r - c\<bar> \<le> 2 * 10 ^ 6 + 1"
    by (auto simp: tracking_def)
  have "(0::real) < 1 / (2 * 10 ^ 6 + 1)" and "(9999 / 10000 :: real) < 1" by simp_all
  from real_arch_pow_inv [OF this]
  obtain k :: nat where "(9999 / 10000 :: real) ^ k < 1 / (2 * 10 ^ 6 + 1)" by blast
  then have "(9999 / 10000) ^ k * (2 * 10 ^ 6 + 1) \<le> (1::real)"
    by (simp add: pos_less_divide_eq)
  from snap_within_fl [OF fl tr cur e this] show ?thesis by blast
qed

lemma executeNextCommand_move_to:
  assumes "\<not> isPaused st" "currentCommandIndex st < length (commandQueue st)"
    and "action (commandQueue st ! currentCommandIndex st) = ''move_to''"
  shows "executeNextCommand st =
    st\<lparr>targetPosition :=
         \<lparr>vx = field (cmd_x (commandQueue st ! currentCommandIndex st)),
          vy = field (cmd_y (commandQueue st ! currentCommandIndex st)),
          vz = field (cmd_z (commandQueue st ! currentCommandIndex st))\<rparr>,
       animationSpeed := js_or (speed (commandQueue st ! currentCommandIndex st)) 50 / 2500\<rparr>"
  using assms by (simp add: executeNextCommand_def Let_def)

lemma rounds_grid: "rounds grid"
proof -
  have near: "\<bar>grid x - x\<bar> \<le> 1 / 2 ^ 52" for x
  proof -
    define y where "y = x * 2 ^ 51"
    have "of_int \<lfloor>y + 1 / 2\<rfloor> \<le> y + 1 / 2" "y + 1 / 2 < of_int \<lfloor>y + 1 / 2\<rfloor> + 1"
      by linarith+
    then have "\<bar>of_int \<lfloor>y + 1 / 2\<rfloor> - y\<bar> \<le> 1 / 2" by linarith
    then have le: "\<bar>of_int \<lfloor>y + 1 / 2\<rfloor> - y\<bar> / 2 ^ 51 \<le> (1 / 2) / 2 ^ 51"
      by (rule divide_right_mono) simp
    have "grid x - x = (of_int \<lfloor>y + 1 / 2\<rfloor> - y) / 2 ^ 51"
      by (simp add: grid_def y_def diff_divide_distrib)
    then have "\<bar>grid x - x\<bar> = \<bar>of_int \<lfloor>y + 1 / 2\<rfloor> - y\<bar> / 2 ^ 51"
      by (simp only: abs_divide) simp
    also note le
    also have "(1 / 2) / 2 ^ 51 = (1::real) / 2 ^ 52" by simp
    finally show ?thesis .
  qed
  have "\<bar>grid x - x\<bar> \<le> (\<bar>x\<bar> + 1) / 10 ^ 15" for x
  proof -
    have "(1::real) / 2 ^ 52 \<le> 1 / 10 ^ 15" by simp
    also have "\<dots> \<le> (\<bar>x\<bar> + 1) / 10 ^ 15" by (rule divide_right_mono) simp_all
    finally show ?thesis using near [of x] by linarith
  qed
  moreover have "0 \<le> grid x" if "0 \<le> x" for x
  proof -
    from that have "0 \<le> x * 2 ^ 51 + 1 / 2" by simp
    then have "0 \<le> \<lfloor>x * 2 ^ 51 + 1 / 2\<rfloor>" by simp
    then show ?thesis by (simp add: grid_def)
  qed
  ultimately show ?thesis by (simp add: rounds_def)
qed

lemma executeNextCommand_exact: "executeNextCommand_fl (\<lambda>x. x) st = executeNextCommand st"
  by (simp add: executeNextCommand_fl_def executeNextCommand_def)

lemma executeNextCommand_fl_move_to:
  assumes "\<not> isPaused st" "currentCommandIndex st < length (commandQueue st)"
    and "action (commandQueue st ! currentCommandIndex st) = ''move_to''"
  shows "executeNextCommand_fl fl st =
    st\<lparr>targetPosition :=
         \<lparr>vx = field (cmd_x (commandQueue st ! currentCommandIndex st)),
          vy = field (cmd_y (commandQueue st ! currentCommandIndex st)),
          vz = field (cmd_z (commandQueue st ! currentCommandIndex st))\<rparr>,
       animationSpeed := fl (js_or (speed (commandQueue st ! currentCommandIndex st)) 50 / 2500)\<rparr>"
  using assms by (simp add: executeNextCommand_fl_def Let_def)

lemma rate_rounded:
  assumes fl: "rounds fl" and v: "1 \<le> v" "v \<le> 4999"
  shows "3 / 10 ^ 4 \<le> fl (v / 2500)" and "fl (v / 2500) \<le> 2 - 3 / 10 ^ 4"
proof -
  define u where "u = v / 2500"
  from v have u: "4 / 10000 \<le> u" "u \<le> 19996 / 10000" by (simp_all add: u_def)
  then have "\<bar>u\<bar> \<le> 10 ^ 20" by simp
  from roundsD(1) [OF fl this] have "\<bar>fl u - u\<bar> \<le> (\<bar>u\<bar> + 1) / 10 ^ 15" .
  with u have "\<bar>fl u - u\<bar> \<le> 1 / 100000" by simp
  with u have "3 / 10000 \<le> fl u" "fl u \<le> 2 - 3 / 10000" by linarith+
  then show "3 / 10 ^ 4 \<le> fl (v / 2500)" and "fl (v / 2500) \<le> 2 - 3 / 10 ^ 4"
    by (simp_all add: u_def)
qed

text \<open>
  Claim C1, amended. For every \<^verbatim>\<open>move_to\<close> command with numeric \<^verbatim>\<open>x\<close>, \<^verbatim>\<open>y\<close>, \<^verbatim>\<open>z\<close> of
  magnitude at most \<open>10\<^sup>6\<close> and a speed with \<open>1 \<le> (speed || 50) \<le> 4999\<close>, activated while the
  engine is animating from a current position with numeric coordinates of magnitude at
  most \<open>10\<^sup>6\<close>: the target becomes \<open>{x, y, z}\<close>; on every later tick that starts at a
  positive distance from the target the distance strictly decreases; and after finitely
  many ticks a tick computes a distance below 2 and snaps \<^verbatim>\<open>currentPosition\<close> to exactly
  the target. This holds for every rounding of the arithmetic of the activation and of a
  tick that is as accurate as the one of JavaScript's numbers, exact arithmetic included.
\<close>

theorem move_to_converges:
  assumes "rounds fl"
    and "isAnimating st" and "\<not> isPaused st"
    and "currentCommandIndex st < length (commandQueue st)"
    and "action (commandQueue st ! currentCommandIndex st) = ''move_to''"
    and "cmd_x (commandQueue st ! currentCommandIndex st) = Some x"
    and "cmd_y (commandQueue st ! currentCommandIndex st) = Some y"
    and "cmd_z (commandQueue st ! currentCommandIndex st) = Some z"
    and "\<bar>x\<bar> \<le> 10 ^ 6" and "\<bar>y\<bar> \<le> 10 ^ 6" and "\<bar>z\<bar> \<le> 10 ^ 6"
    and "1 \<le> js_or (speed (commandQueue st ! currentCommandIndex st)) 50"
    and "js_or (speed (commandQueue st ! currentCommandIndex st)) 50 \<le> 4999"
    and "inside (10 ^ 6) (currentPosition st)"
  shows "targetPosition (executeNextCommand_fl fl st) = vec x y z
    \<and> (\<forall>k. js_lt (Num 0) (distance ((animate_fl fl ^^ k) (executeNextCommand_fl fl st))) \<longrightarrow>
            js_lt (distance ((animate_fl fl ^^ Suc k) (executeNextCommand_fl fl st)))
                  (distance ((animate_fl fl ^^ k) (executeNextCommand_fl fl st))))
    \<and> (\<exists>n. (\<forall>j<n. \<not> js_lt (measured fl ((animate_fl fl ^^ j) (executeNextCommand_fl fl st)))
                        (Num 2))
          \<and> js_lt (measured fl ((animate_fl fl ^^ n) (executeNextCommand_fl fl st))) (Num 2)
          \<and> currentPosition ((animate_fl fl ^^ Suc n) (executeNextCommand_fl fl st))
              = vec x y z)"
proof -
  let ?s = "fl (js_or (speed (commandQueue st ! currentCommandIndex st)) 50 / 2500)"
  let ?st = "executeNextCommand_fl fl st"
  note fl = assms(1)
  have ex: "?st = st\<lparr>targetPosition := vec x y z, animationSpeed := ?s\<rparr>"
    using executeNextCommand_fl_move_to [OF assms(3,4,5)] assms(6,7,8)
    by (simp add: field_def vec_def)
  have tr: "tracking ?st x y z"
  proof (rule trackingI)
    show "3 / 10 ^ 4 \<le> animationSpeed ?st" "animationSpeed ?st \<le> 2 - 3 / 10 ^ 4"
      using rate_rounded [OF fl assms(12,13)] by (simp_all add: ex)
  qed (use assms(2,9,10,11,14) in \<open>simp_all add: ex\<close>)
  have "js_lt (distance ((animate_fl fl ^^ Suc k) ?st)) (distance ((animate_fl fl ^^ k) ?st))"
    if "js_lt (Num 0) (distance ((animate_fl fl ^^ k) ?st))" for k
    using distance_decreases_fl [OF fl tracking_funpow [OF fl tr, of k] that] by simp
  moreover from snap_eventually_fl [OF fl tr]
  have "\<exists>n. (\<forall>j<n. \<not> js_lt (measured fl ((animate_fl fl ^^ j) ?st)) (Num 2))
          \<and> js_lt (measured fl ((animate_fl fl ^^ n) ?st)) (Num 2)
          \<and> currentPosition ((animate_fl fl ^^ Suc n) ?st) = vec x y z"
    by blast
  moreover have "targetPosition ?st = vec x y z"
    by (simp add: ex)
  ultimately show ?thesis by blast
qed

lemma move_ready_facts:
  "isAnimating move_ready" "\<not> isPaused move_ready"
  "currentCommandIndex move_ready < length (commandQueue move_ready)"
  "action (commandQueue move_ready ! currentCommandIndex move_ready) = ''move_to''"
  "cmd_x (commandQueue move_ready ! currentCommandIndex move_ready) = Some 10"
  "cmd_y (commandQueue move_ready ! currentCommandIndex move_ready) = Some 0"
  "cmd_z (commandQueue move_ready ! currentCommandIndex move_ready) = Some 0"
  "\<bar>10::real\<bar> \<le> 10 ^ 6" "\<bar>0::real\<bar> \<le> 10 ^ 6" "\<bar>0::real\<bar> \<le> 10 ^ 6"
  "1 \<le> js_or (speed (commandQueue move_ready ! currentCommandIndex move_ready)) 50"
  "js_or (speed (commandQueue move_ready ! currentCommandIndex move_ready)) 50 \<le> 4999"
  "inside (10 ^ 6) (currentPosition move_ready)"
  by (simp_all add: move_ready_def loadCommands_def new_RobotVisualizer_def cmd_def js_or_def
      inside_def origin_def)

lemma move_ready_distance: "distance (executeNextCommand_fl fl move_ready) = Num 10"
  by (simp add: move_ready_def executeNextCommand_fl_def engine_defs setup_defs distance_def
      js_defs Let_def)

text \<open>
  The theorem at the command \<^verbatim>\<open>{action: 'move_to', x: 10, y: 0, z: 0, speed: 50}\<close>, with
  the arithmetic rounded to 51 binary places.
\<close>

theorem move_to_converges_witness:
  "rounds grid \<and> isAnimating move_ready \<and> \<not> isPaused move_ready
   \<and> currentCommandIndex move_ready < length (commandQueue move_ready)
   \<and> action (commandQueue move_ready ! currentCommandIndex move_ready) = ''move_to''
   \<and> inside (10 ^ 6) (currentPosition move_ready)
   \<and> targetPosition (executeNextCommand_fl grid move_ready) = vec 10 0 0
   \<and> js_lt (distance (animate_fl grid (executeNextCommand_fl grid move_ready)))
           (distance (executeNextCommand_fl grid move_ready))
   \<and> (\<exists>n. currentPosition ((animate_fl grid ^^ Suc n) (executeNextCommand_fl grid move_ready))
           = vec 10 0 0)"
proof -
  note mt = move_to_converges [OF rounds_grid move_ready_facts]
  from mt have "js_lt (Num 0)
        (distance ((animate_fl grid ^^ 0) (executeNextCommand_fl grid move_ready))) \<longrightarrow>
      js_lt (distance ((animate_fl grid ^^ Suc 0) (executeNextCommand_fl grid move_ready)))
            (distance ((animate_fl grid ^^ 0) (executeNextCommand_fl grid move_ready)))"
    by blast
  then have "js_lt (distance (animate_fl grid (executeNextCommand_fl grid move_ready)))
           (distance (executeNextCommand_fl grid move_ready))"
    by (simp add: move_ready_distance js_lt_def)
  moreover from mt
  have "\<exists>n. currentPosition ((animate_fl grid ^^ Suc n) (executeNextCommand_fl grid move_ready))
          = vec 10 0 0"
    by blast
  moreover from mt have "targetPosition (executeNextCommand_fl grid move_ready) = vec 10 0 0"
    by blast
  ultimately show ?thesis
    using move_ready_facts rounds_grid by simp
qed


text \<open>
  The claim as stated fails. A \<^verbatim>\<open>move_to\<close> to the point where the arm already is keeps the
  distance at 0 on a tick; a \<^verbatim>\<open>move_to\<close> with \<^verbatim>\<open>speed: 5000\<close> has the rate 2, the arm
  jumps from one side of the target to the other, and the distance stays 10 on every tick.
\<close>

theorem move_to_distance_counterexample:
  "distance (run (new_RobotVisualizer 800 600)
      [LoadCommands [cmd ''move_to'' (Some 0) (Some 0) (Some 0) (Some 50)],
       StartExecution]) = Num 0
   \<and> distance (run (new_RobotVisualizer 800 600)
      [LoadCommands [cmd ''move_to'' (Some 0) (Some 0) (Some 0) (Some 50)],
       StartExecution, Frame]) = Num 0
   \<and> distance (run (new_RobotVisualizer 800 600)
      [LoadCommands [cmd ''move_to'' (Some 10) (Some 0) (Some 0) (Some 5000)],
       StartExecution]) = Num 10
   \<and> distance (run (new_RobotVisualizer 800 600)
      [LoadCommands [cmd ''move_to'' (Some 10) (Some 0) (Some 0) (Some 5000)],
       StartExecution, Frame]) = Num 10
   \<and> distance (run (new_RobotVisualizer 800 600)
      [LoadCommands [cmd ''move_to'' (Some 10) (Some 0) (Some 0) (Some 5000)],
       StartExecution, Frame, Frame]) = Num 10"
  by (simp add: engine_defs setup_defs distance_def js_defs Let_def)

text \<open>
  The bound on the coordinates cannot be dropped. Three units short of the target
  \<open>{10\<^sup>1\<^sup>5, 0, 0}\<close> a step of the arm is 0.06, less than half the spacing 0.125 of the
  doubles of that magnitude: with the arithmetic rounded to that spacing, a tick computes
  the distance 3 and leaves the engine as it is, so that the arm never arrives.
\<close>

lemma rounds_coarse: "rounds coarse"
proof -
  have "\<bar>coarse x - x\<bar> \<le> (\<bar>x\<bar> + 1) / 10 ^ 15" for x
  proof (cases "5 * 10 ^ 14 \<le> \<bar>x\<bar>")
    case True
    define y where "y = x * 8"
    have "of_int \<lfloor>y + 1 / 2\<rfloor> \<le> y + 1 / 2" "y + 1 / 2 < of_int \<lfloor>y + 1 / 2\<rfloor> + 1"
      by linarith+
    then have "\<bar>of_int \<lfloor>y + 1 / 2\<rfloor> - y\<bar> \<le> 1 / 2" by linarith
    then have le: "\<bar>of_int \<lfloor>y + 1 / 2\<rfloor> - y\<bar> / 8 \<le> (1 / 2) / 8"
      by (rule divide_right_mono) simp
    have "of_int \<lfloor>y + 1 / 2\<rfloor> / 8 - x = (of_int \<lfloor>y + 1 / 2\<rfloor> - y) / 8"
      by (simp add: y_def diff_divide_distrib)
    then have "\<bar>of_int \<lfloor>y + 1 / 2\<rfloor> / 8 - x\<bar> = \<bar>of_int \<lfloor>y + 1 / 2\<rfloor> - y\<bar> / 8"
      by (simp only: abs_divide abs_numeral)
    also note le
    finally have "\<bar>of_int \<lfloor>y + 1 / 2\<rfloor> / 8 - x\<bar> \<le> 1 / 16" by simp
    moreover have "1 / 16 \<le> (\<bar>x\<bar> + 1) / 10 ^ 15" using True by simp
    ultimately show ?thesis using True by (simp add: coarse_def y_def)
  next
    case False
    then show ?thesis by (simp add: coarse_def)
  qed
  moreover have "0 \<le> coarse x" if "0 \<le> x" for x
  proof -
    from that have "0 \<le> x * 8 + 1 / 2" by simp
    then have "0 \<le> \<lfloor>x * 8 + 1 / 2\<rfloor>" by simp
    with that show ?thesis by (simp add: coarse_def)
  qed
  ultimately show ?thesis by (simp add: rounds_def)
qed

lemma far_target_stalls:
  "rounds coarse
   \<and> currentPosition far_from_home = vec 999999999999997 0 0
   \<and> targetPosition far_from_home = vec 1000000000000000 0 0
   \<and> animationSpeed far_from_home = 1 / 50
   \<and> measured coarse far_from_home = Num 3
   \<and> animate_fl coarse far_from_home = far_from_home"
  by (simp add: rounds_coarse far_from_home_def new_RobotVisualizer_def vec_def origin_def
      animate_fl_def measured_def js_defs js_fl_def coarse_def Let_def)

text \<open>
  Nor can the lower bound on the speed: at the rate \<open>10\<^sup>-\<^sup>1\<^sup>8\<close> a step of the arm from
  \<open>{1, 0, 0}\<close> towards \<open>{10, 0, 0}\<close> is \<open>9 * 10\<^sup>-\<^sup>1\<^sup>8\<close>, which is lost when it is added to 1:
  with the arithmetic rounded to 51 binary places, a tick computes the distance 9 and
  leaves the engine as it is.
\<close>

lemma slow_move_stalls:
  "rounds grid
   \<and> currentPosition slow_move = vec 1 0 0 \<and> targetPosition slow_move = vec 10 0 0
   \<and> animationSpeed slow_move = 1 / 10 ^ 18
   \<and> measured grid slow_move = Num 9
   \<and> animate_fl grid slow_move = slow_move"
  by (simp add: rounds_grid slow_move_def new_RobotVisualizer_def vec_def origin_def
      animate_fl_def measured_def js_defs js_fl_def grid_def Let_def)


section \<open>Pausing during a move\<close>

lemma sqrt_less_two: "(sqrt v < 2) = (v < 4)"
  using real_sqrt_less_iff [of v 4] by simp

lemma isPaused_animate_fl: "isPaused (animate_fl fl st) = isPaused st"
  by (simp add: animate_fl_def completeCurrentCommand_def setTimeout_def markCommandCompleted_def
      Let_def)

lemma isPaused_funpow_fl: "isPaused ((animate_fl fl ^^ k) st) = isPaused st"
  by (induction k) (simp_all add: isPaused_animate_fl)

lemma far_tick_index_fl:
  assumes fl: "rounds fl" and tr: "tracking st p q r"
    and far: "\<not> js_lt (measured fl st) (Num 2)"
  shows "currentCommandIndex (animate_fl fl st) = currentCommandIndex st
         \<and> commandQueue (animate_fl fl st) = commandQueue st"
proof -
  from tr obtain a b c where cur: "currentPosition st = vec a b c"
    by (auto simp: tracking_def)
  from tr have an: "isAnimating st" and tgt: "targetPosition st = vec p q r"
    by (simp_all add: tracking_def)
  from far have "\<not> seen fl (p - a) (q - b) (r - c) < 2"
    by (simp add: measured_vec [OF fl cur tgt] js_lt_def)
  from animate_fl_far [OF fl an cur tgt this] show ?thesis by simp
qed

lemma near_tick_index_fl:
  assumes fl: "rounds fl" and tr: "tracking st p q r"
    and near: "js_lt (measured fl st) (Num 2)"
  shows "currentCommandIndex (animate_fl fl st) =
           (if currentCommandIndex st < length (commandQueue st)
            then currentCommandIndex st + 1 else currentCommandIndex st)"
proof -
  from tr obtain a b c where cur: "currentPosition st = vec a b c"
    by (auto simp: tracking_def)
  from tr have an: "isAnimating st" and tgt: "targetPosition st = vec p q r"
    by (simp_all add: tracking_def)
  from near have "seen fl (p - a) (q - b) (r - c) < 2"
    by (simp add: measured_vec [OF fl cur tgt] js_lt_def)
  from animate_fl_near [OF fl an cur tgt this] show ?thesis
    by (simp add: completeCurrentCommand_def setTimeout_def markCommandCompleted_def Let_def)
qed

lemma far_ticks_keep_index_fl:
  assumes fl: "rounds fl" and tr: "tracking st p q r"
  shows "(\<forall>j<n. \<not> js_lt (measured fl ((animate_fl fl ^^ j) st)) (Num 2)) \<Longrightarrow>
         currentCommandIndex ((animate_fl fl ^^ n) st) = currentCommandIndex st
         \<and> commandQueue ((animate_fl fl ^^ n) st) = commandQueue st"
proof (induction n)
  case 0
  show ?case by simp
next
  case (Suc n)
  then have ih: "currentCommandIndex ((animate_fl fl ^^ n) st) = currentCommandIndex st
         \<and> commandQueue ((animate_fl fl ^^ n) st) = commandQueue st"
    by simp
  from Suc.prems have "\<not> js_lt (measured fl ((animate_fl fl ^^ n) st)) (Num 2)" by simp
  from far_tick_index_fl [OF fl tracking_funpow [OF fl tr, of n] this] ih show ?case by simp
qed

text \<open>
  Claim C4, amended. For every engine state paused during a move (\<^verbatim>\<open>isAnimating\<close> and
  \<^verbatim>\<open>isPaused\<close> true, current position and target with numeric coordinates of magnitude
  at most \<open>10\<^sup>6\<close>, rate between \<open>3 / 10\<^sup>4\<close> and \<open>2 - 3 / 10\<^sup>4\<close>, where the rate of
  every speed between 1 and 4999 lies), the engine stays animating and paused
  over the ticks; \<^verbatim>\<open>currentCommandIndex\<close> does not change on any tick that computes a
  distance to the target of 2 or more, while the distance strictly decreases on each tick
  that starts at a positive distance. The pause does not hold back the completion of the
  move: after finitely many ticks, over which the index has not changed, a tick computes
  a distance below 2, snaps \<^verbatim>\<open>currentPosition\<close> to the target and advances the index by
  one (when it is below the length of the queue). What the pause blocks is the activation
  of the next command: \<^verbatim>\<open>executeNextCommand\<close> changes nothing as long as the index is
  inside the queue. This holds for every rounding of the arithmetic of a tick that is as
  accurate as the one of JavaScript's numbers, exact arithmetic included.
\<close>

theorem paused_move_to:
  assumes "rounds fl" and "isAnimating st" and "isPaused st"
    and "inside (10 ^ 6) (currentPosition st)" and "inside (10 ^ 6) (targetPosition st)"
    and "3 / 10 ^ 4 \<le> animationSpeed st" and "animationSpeed st \<le> 2 - 3 / 10 ^ 4"
  shows "(\<forall>k. isAnimating ((animate_fl fl ^^ k) st) \<and> isPaused ((animate_fl fl ^^ k) st))
    \<and> (\<forall>k. \<not> js_lt (measured fl ((animate_fl fl ^^ k) st)) (Num 2) \<longrightarrow>
            currentCommandIndex ((animate_fl fl ^^ Suc k) st)
              = currentCommandIndex ((animate_fl fl ^^ k) st))
    \<and> (\<forall>k. js_lt (Num 0) (distance ((animate_fl fl ^^ k) st)) \<longrightarrow>
            js_lt (distance ((animate_fl fl ^^ Suc k) st)) (distance ((animate_fl fl ^^ k) st)))
    \<and> (\<exists>n. (\<forall>j\<le>n. currentCommandIndex ((animate_fl fl ^^ j) st) = currentCommandIndex st)
          \<and> js_lt (measured fl ((animate_fl fl ^^ n) st)) (Num 2)
          \<and> currentPosition ((animate_fl fl ^^ Suc n) st) = targetPosition st
          \<and> currentCommandIndex ((animate_fl fl ^^ Suc n) st) =
              (if currentCommandIndex st < length (commandQueue st)
               then currentCommandIndex st + 1 else currentCommandIndex st))
    \<and> (\<forall>k. currentCommandIndex ((animate_fl fl ^^ k) st)
              < length (commandQueue ((animate_fl fl ^^ k) st)) \<longrightarrow>
            executeNextCommand ((animate_fl fl ^^ k) st) = (animate_fl fl ^^ k) st)"
proof -
  note fl = assms(1)
  from assms(5) obtain p q r where tgt: "targetPosition st = vec p q r"
    and t: "\<bar>p\<bar> \<le> 10 ^ 6" "\<bar>q\<bar> \<le> 10 ^ 6" "\<bar>r\<bar> \<le> 10 ^ 6"
    by (auto simp: inside_iff)
  have tr: "tracking st p q r"
    using assms(2) tgt t assms(4,6,7) by (rule trackingI)
  note trk = tracking_funpow [OF fl tr]
  have flags: "isAnimating ((animate_fl fl ^^ k) st) \<and> isPaused ((animate_fl fl ^^ k) st)" for k
    using trk [of k] assms(3) by (simp add: tracking_def isPaused_funpow_fl)
  have keep: "currentCommandIndex ((animate_fl fl ^^ Suc k) st)
                = currentCommandIndex ((animate_fl fl ^^ k) st)"
    if "\<not> js_lt (measured fl ((animate_fl fl ^^ k) st)) (Num 2)" for k
    using far_tick_index_fl [OF fl trk [of k] that] by simp
  have decr: "js_lt (distance ((animate_fl fl ^^ Suc k) st)) (distance ((animate_fl fl ^^ k) st))"
    if "js_lt (Num 0) (distance ((animate_fl fl ^^ k) st))" for k
    using distance_decreases_fl [OF fl trk [of k] that] by simp
  from snap_eventually_fl [OF fl tr] obtain n where n:
    "\<forall>j<n. \<not> js_lt (measured fl ((animate_fl fl ^^ j) st)) (Num 2)"
    "js_lt (measured fl ((animate_fl fl ^^ n) st)) (Num 2)"
    "currentPosition ((animate_fl fl ^^ Suc n) st) = vec p q r"
    by blast
  have idx: "currentCommandIndex ((animate_fl fl ^^ j) st) = currentCommandIndex st
         \<and> commandQueue ((animate_fl fl ^^ j) st) = commandQueue st" if "j \<le> n" for j
    using far_ticks_keep_index_fl [OF fl tr, of j] n(1) that by simp
  have "currentCommandIndex ((animate_fl fl ^^ Suc n) st) =
              (if currentCommandIndex st < length (commandQueue st)
               then currentCommandIndex st + 1 else currentCommandIndex st)"
    using near_tick_index_fl [OF fl trk [of n] n(2)] idx [of n] by simp
  with n(2,3) idx tgt
  have snap: "\<exists>n. (\<forall>j\<le>n. currentCommandIndex ((animate_fl fl ^^ j) st) = currentCommandIndex st)
          \<and> js_lt (measured fl ((animate_fl fl ^^ n) st)) (Num 2)
          \<and> currentPosition ((animate_fl fl ^^ Suc n) st) = targetPosition st
          \<and> currentCommandIndex ((animate_fl fl ^^ Suc n) st) =
              (if currentCommandIndex st < length (commandQueue st)
               then currentCommandIndex st + 1 else currentCommandIndex st)"
    by (intro exI [of _ n]) simp
  have blocked: "executeNextCommand ((animate_fl fl ^^ k) st) = (animate_fl fl ^^ k) st"
    if "currentCommandIndex ((animate_fl fl ^^ k) st)
          < length (commandQueue ((animate_fl fl ^^ k) st))" for k
    using that flags [of k] by (simp add: executeNextCommand_def)
  from flags keep decr snap blocked show ?thesis by blast
qed

lemma paused_mid_move_facts:
  "isAnimating paused_mid_move" "isPaused paused_mid_move"
  "inside (10 ^ 6) (currentPosition paused_mid_move)"
  "inside (10 ^ 6) (targetPosition paused_mid_move)"
  "3 / 10 ^ 4 \<le> animationSpeed paused_mid_move"
  "animationSpeed paused_mid_move \<le> 2 - 3 / 10 ^ 4"
  by (simp_all add: paused_mid_move_def engine_defs js_defs setup_defs inside_def Let_def)

lemma paused_mid_move_eval:
  "currentPosition paused_mid_move = vec (1 / 5) 0 0"
  "targetPosition paused_mid_move = vec 10 0 0"
  "currentCommandIndex paused_mid_move = 0"
  "length (commandQueue paused_mid_move) = 1"
  by (simp_all add: paused_mid_move_def engine_defs js_defs setup_defs Let_def)

text \<open>
  The theorem at the engine paused one frame into the move towards \<open>{10, 0, 0}\<close>, with the
  arithmetic rounded to 51 binary places.
\<close>

theorem paused_move_to_witness:
  "rounds grid \<and> isAnimating paused_mid_move \<and> isPaused paused_mid_move
   \<and> inside (10 ^ 6) (currentPosition paused_mid_move)
   \<and> inside (10 ^ 6) (targetPosition paused_mid_move)
   \<and> 3 / 10 ^ 4 \<le> animationSpeed paused_mid_move
   \<and> animationSpeed paused_mid_move \<le> 2 - 3 / 10 ^ 4
   \<and> isPaused (animate_fl grid paused_mid_move)
   \<and> js_lt (distance (animate_fl grid paused_mid_move)) (distance paused_mid_move)
   \<and> executeNextCommand paused_mid_move = paused_mid_move
   \<and> (\<exists>n. currentPosition ((animate_fl grid ^^ Suc n) paused_mid_move) = vec 10 0 0)"
proof -
  note pm = paused_move_to [OF rounds_grid paused_mid_move_facts]
  have d: "distance paused_mid_move = Num (gap (1 / 5) 0 0 10 0 0)"
    using paused_mid_move_eval(1,2) by (rule distance_vec)
  from pm have "isPaused ((animate_fl grid ^^ 1) paused_mid_move)" by blast
  moreover from pm have "js_lt (Num 0) (distance ((animate_fl grid ^^ 0) paused_mid_move)) \<longrightarrow>
      js_lt (distance ((animate_fl grid ^^ Suc 0) paused_mid_move))
            (distance ((animate_fl grid ^^ 0) paused_mid_move))"
    by blast
  moreover from pm have "currentCommandIndex ((animate_fl grid ^^ 0) paused_mid_move)
              < length (commandQueue ((animate_fl grid ^^ 0) paused_mid_move)) \<longrightarrow>
            executeNextCommand ((animate_fl grid ^^ 0) paused_mid_move)
              = (animate_fl grid ^^ 0) paused_mid_move"
    by blast
  moreover from pm have "\<exists>n. currentPosition ((animate_fl grid ^^ Suc n) paused_mid_move)
      = targetPosition paused_mid_move"
    by blast
  ultimately show ?thesis
    using paused_mid_move_facts paused_mid_move_eval(2,3,4) rounds_grid
    by (simp add: d js_lt_def gap_def sqrt_less_two)
qed


text \<open>
  The claim as stated fails: paused during the move towards \<open>{2.01, 0, 0}\<close>, after one
  tick the arm is at \<open>{0.0402, 0, 0}\<close> with the index 0, and the next tick, which finds the
  distance 1.9698, takes the index to 1.
\<close>

theorem paused_index_counterexample:
  "isAnimating (run (new_RobotVisualizer 800 600)
      [LoadCommands [cmd ''move_to'' (Some (201 / 100)) (Some 0) (Some 0) (Some 50)],
       StartExecution, PauseExecution, Frame])
   \<and> isPaused (run (new_RobotVisualizer 800 600)
      [LoadCommands [cmd ''move_to'' (Some (201 / 100)) (Some 0) (Some 0) (Some 50)],
       StartExecution, PauseExecution, Frame])
   \<and> currentPosition (run (new_RobotVisualizer 800 600)
      [LoadCommands [cmd ''move_to'' (Some (201 / 100)) (Some 0) (Some 0) (Some 50)],
       StartExecution, PauseExecution, Frame]) = vec (201 / 5000) 0 0
   \<and> currentCommandIndex (run (new_RobotVisualizer 800 600)
      [LoadCommands [cmd ''move_to'' (Some (201 / 100)) (Some 0) (Some 0) (Some 50)],
       StartExecution, PauseExecution, Frame]) = 0
   \<and> currentCommandIndex (run (new_RobotVisualizer 800 600)
      [LoadCommands [cmd ''move_to'' (Some (201 / 100)) (Some 0) (Some 0) (Some 50)],
       StartExecution, PauseExecution, Frame, Frame]) = 1"
  by (simp add: engine_defs js_defs setup_defs Let_def sqrt_less_two)


section \<open>Commands with missing fields\<close>

lemma loadRobotCommands_nth:
  assumes "i < length cs"
  shows "commandQueue (loadRobotCommands cs st0) ! i
           = (convert_command (cs ! i))\<lparr>index := i, completed := False\<rparr>"
  using assms
  by (simp add: loadRobotCommands_def loadCommands_def nth_enumerate_eq)

lemma length_loadRobotCommands:
  "length (commandQueue (loadRobotCommands cs st0)) = length cs"
  by (simp add: loadRobotCommands_def loadCommands_def)

lemma js_or_idem: "js_or (Some (js_or v d)) d = js_or v d"
  by (simp add: js_or_def split: option.splits)

text \<open>
  Claim C7, amended. When the engine activates a \<^verbatim>\<open>move_to\<close> command of its queue, it
  takes the rate \<open>(speed || 50) / 2500\<close>, which is \<open>50 / 2500\<close> for a command without a
  speed, and copies \<^verbatim>\<open>x\<close>, \<^verbatim>\<open>y\<close> and \<^verbatim>\<open>z\<close> into the target as they are. The defaults
  for the coordinates are substituted by the controller: for a queue loaded by
  \<^verbatim>\<open>loadRobotCommands\<close>, the target components are the given values or 0, and the rate
  comes from the given speed or 50. Nothing is claimed about exceptions: a command that
  reaches the engine without a coordinate makes the next frame fail.
\<close>

theorem move_to_defaults:
  assumes "\<not> isPaused st" and "currentCommandIndex st < length (commandQueue st)"
    and "action (commandQueue st ! currentCommandIndex st) = ''move_to''"
  shows "animationSpeed (executeNextCommand st)
           = js_or (speed (commandQueue st ! currentCommandIndex st)) 50 / 2500
    \<and> (speed (commandQueue st ! currentCommandIndex st) = None \<longrightarrow>
          animationSpeed (executeNextCommand st) = 50 / 2500)
    \<and> targetPosition (executeNextCommand st)
         = \<lparr>vx = field (cmd_x (commandQueue st ! currentCommandIndex st)),
            vy = field (cmd_y (commandQueue st ! currentCommandIndex st)),
            vz = field (cmd_z (commandQueue st ! currentCommandIndex st))\<rparr>
    \<and> (\<forall>cs st0. commandQueue st = commandQueue (loadRobotCommands cs st0) \<longrightarrow>
          targetPosition (executeNextCommand st)
            = vec (js_or (cmd_x (cs ! currentCommandIndex st)) 0)
                  (js_or (cmd_y (cs ! currentCommandIndex st)) 0)
                  (js_or (cmd_z (cs ! currentCommandIndex st)) 0)
          \<and> animationSpeed (executeNextCommand st)
            = js_or (speed (cs ! currentCommandIndex st)) 50 / 2500)
    \<and> js_or None 0 = 0 \<and> js_or None 50 = 50"
proof -
  let ?i = "currentCommandIndex st"
  note ex = executeNextCommand_move_to [OF assms]
  have a: "animationSpeed (executeNextCommand st) = js_or (speed (commandQueue st ! ?i)) 50 / 2500"
    by (simp add: ex)
  have t: "targetPosition (executeNextCommand st)
         = \<lparr>vx = field (cmd_x (commandQueue st ! ?i)), vy = field (cmd_y (commandQueue st ! ?i)),
            vz = field (cmd_z (commandQueue st ! ?i))\<rparr>"
    by (simp add: ex)
  have c: "targetPosition (executeNextCommand st)
            = vec (js_or (cmd_x (cs ! ?i)) 0) (js_or (cmd_y (cs ! ?i)) 0) (js_or (cmd_z (cs ! ?i)) 0)
          \<and> animationSpeed (executeNextCommand st) = js_or (speed (cs ! ?i)) 50 / 2500"
    if q: "commandQueue st = commandQueue (loadRobotCommands cs st0)" for cs st0
  proof -
    from assms(2) q have "?i < length cs"
      by (simp add: length_loadRobotCommands)
    then have "commandQueue st ! ?i = (convert_command (cs ! ?i))\<lparr>index := ?i, completed := False\<rparr>"
      using q by (simp add: loadRobotCommands_nth)
    then show ?thesis
      by (simp add: a t convert_command_def field_def vec_def js_or_idem)
  qed
  have "js_or None 0 = 0 \<and> js_or None 50 = 50"
    by (simp add: js_or_def)
  moreover have "animationSpeed (executeNextCommand st) = 50 / 2500"
    if "speed (commandQueue st ! ?i) = None"
    unfolding a that by (simp add: js_or_def)
  ultimately show ?thesis using a t c by blast
qed

lemma defaults_ready_facts:
  "\<not> isPaused defaults_ready"
  "currentCommandIndex defaults_ready < length (commandQueue defaults_ready)"
  "action (commandQueue defaults_ready ! currentCommandIndex defaults_ready) = ''move_to''"
  by (simp_all add: defaults_ready_def loadRobotCommands_def loadCommands_def cmd_def
      convert_command_def)

lemma defaults_ready_queue:
  "commandQueue defaults_ready
     = commandQueue (loadRobotCommands [cmd ''move_to'' None None None None]
         (new_RobotVisualizer 800 600))"
  "currentCommandIndex defaults_ready = 0"
  by (simp_all add: defaults_ready_def)

text \<open>The theorem at the command \<^verbatim>\<open>{action: 'move_to'}\<close> loaded through the controller.\<close>

theorem move_to_defaults_witness:
  "\<not> isPaused defaults_ready
   \<and> currentCommandIndex defaults_ready < length (commandQueue defaults_ready)
   \<and> action (commandQueue defaults_ready ! currentCommandIndex defaults_ready) = ''move_to''
   \<and> targetPosition (executeNextCommand defaults_ready) = vec 0 0 0
   \<and> animationSpeed (executeNextCommand defaults_ready) = 50 / 2500"
proof -
  note md = move_to_defaults [OF defaults_ready_facts]
  from md have "commandQueue defaults_ready
       = commandQueue (loadRobotCommands [cmd ''move_to'' None None None None]
           (new_RobotVisualizer 800 600)) \<longrightarrow>
     targetPosition (executeNextCommand defaults_ready)
       = vec (js_or (cmd_x ([cmd ''move_to'' None None None None] ! currentCommandIndex defaults_ready)) 0)
             (js_or (cmd_y ([cmd ''move_to'' None None None None] ! currentCommandIndex defaults_ready)) 0)
             (js_or (cmd_z ([cmd ''move_to'' None None None None] ! currentCommandIndex defaults_ready)) 0)
     \<and> animationSpeed (executeNextCommand defaults_ready)
       = js_or (speed ([cmd ''move_to'' None None None None] ! currentCommandIndex defaults_ready)) 50 / 2500"
    by blast
  then show ?thesis
    using defaults_ready_facts defaults_ready_queue
    by (simp add: cmd_def js_or_def)
qed

text \<open>
  The claim as stated fails: given the command \<^verbatim>\<open>{action: 'move_to', y: 5, z: 0}\<close> by
  \<^verbatim>\<open>loadCommands\<close>, the engine activates it with the target component \<^verbatim>\<open>x\<close> undefined,
  not 0 (and with the default rate); the next frame makes the \<^verbatim>\<open>x\<close> of the current
  position \<^verbatim>\<open>NaN\<close>.
\<close>

theorem move_to_missing_x_counterexample:
  "targetPosition (run (new_RobotVisualizer 800 600)
      [LoadCommands [cmd ''move_to'' None (Some 5) (Some 0) None], StartExecution])
     = \<lparr>vx = Undefined, vy = Num 5, vz = Num 0\<rparr>
   \<and> animationSpeed (run (new_RobotVisualizer 800 600)
      [LoadCommands [cmd ''move_to'' None (Some 5) (Some 0) None], StartExecution]) = 50 / 2500
   \<and> currentPosition (run (new_RobotVisualizer 800 600)
      [LoadCommands [cmd ''move_to'' None (Some 5) (Some 0) None], StartExecution, Frame])
     = \<lparr>vx = NaN, vy = Num (1 / 10), vz = Num 0\<rparr>
   \<and> currentCommandIndex (run (new_RobotVisualizer 800 600)
      [LoadCommands [cmd ''move_to'' None (Some 5) (Some 0) None], StartExecution, Frame]) = 0"
  by (simp add: engine_defs js_defs setup_defs Let_def)

text \<open>
  After that frame has made the pose \<^verbatim>\<open>NaN\<close>, its call of \<^verbatim>\<open>draw\<close> throws; on a pose
  with numeric coordinates it does not.
\<close>

lemmas draw_defs =
  draw_def drawSphere_def createRadialGradient_def endEffector_def project3D_js_def
  Math_atan2_def js_app_def

lemma draw_missing_x:
  "draw (run (new_RobotVisualizer 800 600)
      [LoadCommands [cmd ''move_to'' None (Some 5) (Some 0) None], StartExecution, Frame])
     = Inl TypeError"
  by (simp add: draw_defs engine_defs js_defs setup_defs Let_def)

lemma draw_numeric:
  assumes "numeric (currentPosition st)"
  shows "draw st = Inr ()"
proof -
  from assms obtain a b c where "currentPosition st = vec a b c"
    by (auto simp: numeric_iff)
  then show ?thesis
    by (simp add: draw_defs js_defs vec_def Let_def not_less add_nonneg_nonneg)
qed

text \<open>
  So no frame of the moves of claims C1 and C4 leaves \<^verbatim>\<open>animate\<close> through an exception of
  \<^verbatim>\<open>draw\<close>.
\<close>

lemma draw_while_tracking:
  assumes "rounds fl" and "tracking st p q r"
  shows "draw ((animate_fl fl ^^ k) st) = Inr ()"
proof -
  from tracking_funpow [OF assms, of k]
  obtain a b c where "currentPosition ((animate_fl fl ^^ k) st) = vec a b c"
    by (auto simp: tracking_def)
  then have "numeric (currentPosition ((animate_fl fl ^^ k) st))"
    by (auto simp: numeric_iff)
  then show ?thesis by (rule draw_numeric)
qed


section \<open>Lightening and darkening a colour\<close>

lemmas colour_defs =
  darkenColor_def lightenColor_def channel_def substr_def parseInt16_def is_space_def
  is_hex_def hex_digit_def hex_value_def rgb_text_def Number_toString_def dec_int_def
  dec.simps digit_char_def Math_round_def Math_min_def js_add_def js_arith_def

lemma is_hex_cases:
  "is_hex c \<Longrightarrow> c \<in> set ''0123456789abcdefABCDEF''"
  by (simp add: is_hex_def hex_digit_def split: if_splits)

lemma is_hex_plain:
  assumes "is_hex c"
  shows "\<not> is_space c" "c \<noteq> CHR ''-''" "c \<noteq> CHR ''+''" "c \<noteq> CHR ''x''" "c \<noteq> CHR ''X''"
    "c \<noteq> CHR ''#''"
  using is_hex_cases [OF assms] by (auto simp: is_space_def)

lemma parseInt16_hex2:
  assumes "is_hex c" "is_hex d"
  shows "parseInt16 [c, d] = Num (real (hex_value [c, d]))"
  using assms is_hex_plain [OF assms(1)] is_hex_plain [OF assms(2)]
  by (simp add: parseInt16_def Let_def)

lemma channel_hex2:
  assumes "is_hex c" "is_hex d"
  shows "channel [c, d] amount
           = Num (of_int \<lfloor>min 255 (real (hex_value [c, d]) + amount * 255) + 1 / 2\<rfloor>)"
  by (simp add: channel_def parseInt16_hex2 [OF assms] Math_round_def Math_min_def js_add_def
      js_arith_def)

lemma toString_rounded:
  assumes "0 \<le> u"
  shows "Number_toString (Num (of_int \<lfloor>min 255 u + 1 / 2\<rfloor>))
           = Some (dec (nat \<lfloor>clamp u 0 255 + 1 / 2\<rfloor>))"
proof -
  let ?k = "\<lfloor>min 255 u + 1 / 2\<rfloor>"
  from assms have "0 \<le> ?k" by simp
  moreover have "?k \<le> 255"
  proof -
    have "min 255 u + 1 / 2 < 256" by simp
    then have "?k < 256" by (simp add: floor_less_iff)
    then show ?thesis by simp
  qed
  moreover from assms have "clamp u 0 255 = min 255 u"
    by (simp add: clamp_def)
  ultimately show ?thesis
    by (simp add: Number_toString_def dec_int_def abs_if)
qed

text \<open>
  Claim C9, amended. For a colour \<^verbatim>\<open>#rrggbb\<close> of six hexadecimal digits and an amount that
  takes no channel below 0, \<^verbatim>\<open>lightenColor\<close> returns the text \<^verbatim>\<open>rgb(R, G, B)\<close> in which
  each channel is \<open>clamp(channel + amount * 255, 0, 255)\<close> rounded to the nearest integer,
  and \<^verbatim>\<open>darkenColor\<close> is the same function with the amount negated. The result is not a
  hexadecimal colour, and the two functions read hexadecimal colours only: nothing is
  claimed about \<^verbatim>\<open>darkenColor(lightenColor(c, a), a)\<close>.
\<close>

theorem lightenColor_hex:
  assumes "length hex = 6" and "\<forall>c\<in>set hex. is_hex c"
    and "0 \<le> real (hex_value (substr 0 2 hex)) + amount * 255"
    and "0 \<le> real (hex_value (substr 2 2 hex)) + amount * 255"
    and "0 \<le> real (hex_value (substr 4 2 hex)) + amount * 255"
  shows "lightenColor (CHR ''#'' # hex) amount
     = Some (''rgb('' @ dec (nat \<lfloor>spec_channel (hex_value (substr 0 2 hex)) amount + 1 / 2\<rfloor>)
             @ '', '' @ dec (nat \<lfloor>spec_channel (hex_value (substr 2 2 hex)) amount + 1 / 2\<rfloor>)
             @ '', '' @ dec (nat \<lfloor>spec_channel (hex_value (substr 4 2 hex)) amount + 1 / 2\<rfloor>)
             @ '')'')
   \<and> darkenColor color amount = lightenColor color (- amount)"
proof -
  from assms(1) obtain a b c d e f where hex: "hex = [a, b, c, d, e, f]"
    by (auto simp: length_Suc_conv eval_nat_numeral)
  with assms(2) have h: "is_hex a" "is_hex b" "is_hex c" "is_hex d" "is_hex e" "is_hex f"
    by simp_all
  have s: "substr 0 2 hex = [a, b]" "substr 2 2 hex = [c, d]" "substr 4 2 hex = [e, f]"
    by (simp_all add: hex substr_def)
  have "lightenColor (CHR ''#'' # hex) amount
     = rgb_text (channel [a, b] amount) (channel [c, d] amount) (channel [e, f] amount)"
    by (simp add: lightenColor_def s)
  also have "\<dots> = Some (''rgb('' @ dec (nat \<lfloor>spec_channel (hex_value [a, b]) amount + 1 / 2\<rfloor>)
             @ '', '' @ dec (nat \<lfloor>spec_channel (hex_value [c, d]) amount + 1 / 2\<rfloor>)
             @ '', '' @ dec (nat \<lfloor>spec_channel (hex_value [e, f]) amount + 1 / 2\<rfloor>)
             @ '')'')"
    using assms(3,4,5) unfolding s
    by (simp add: rgb_text_def channel_hex2 h toString_rounded spec_channel_def)
  finally show ?thesis
    by (simp add: s darkenColor_def)
qed

text \<open>The theorem at the colour \<^verbatim>\<open>#808080\<close> with the amounts 0.25 and -0.25.\<close>

theorem lightenColor_hex_witness:
  "length ''808080'' = 6 \<and> is_hex CHR ''8'' \<and> is_hex CHR ''0''
   \<and> lightenColor ''#808080'' (1 / 4) = Some ''rgb(192, 192, 192)''
   \<and> darkenColor ''#808080'' (1 / 4) = Some ''rgb(64, 64, 64)''"
proof -
  have hx: "\<forall>c\<in>set ''808080''. is_hex c"
    by (simp add: is_hex_def hex_digit_def)
  have v: "hex_value (substr 0 2 ''808080'') = 128" "hex_value (substr 2 2 ''808080'') = 128"
    "hex_value (substr 4 2 ''808080'') = 128"
    by (simp_all add: substr_def hex_value_def hex_digit_def)
  have l: "lightenColor ''#808080'' (1 / 4) = Some ''rgb(192, 192, 192)''"
    using lightenColor_hex [of "''808080''" "1 / 4" "''#808080''"] hx
    by (simp add: v spec_channel_def clamp_def dec.simps digit_char_def)
  have "darkenColor ''#808080'' (1 / 4) = lightenColor ''#808080'' (- (1 / 4))"
    using lightenColor_hex [of "''808080''" "1 / 4" "''#808080''"] hx
    by (simp add: v)
  also have "\<dots> = Some ''rgb(64, 64, 64)''"
    using lightenColor_hex [of "''808080''" "- (1 / 4)" "''#808080''"] hx
    by (simp add: v spec_channel_def clamp_def dec.simps digit_char_def)
  finally show ?thesis
    using l hx by simp
qed

text \<open>
  The claim as stated fails: \<^verbatim>\<open>lightenColor('#808080', 0.25)\<close> is \<^verbatim>\<open>rgb(192, 192, 192)\<close>,
  and \<^verbatim>\<open>darkenColor\<close> of that text with the same amount reads \<^verbatim>\<open>rg\<close>, \<^verbatim>\<open>b(\<close> and \<^verbatim>\<open>19\<close>
  as its channels and returns \<^verbatim>\<open>rgb(NaN, -53, -39)\<close>, which is far from the grey it
  started from and has channels below 0.
\<close>

theorem darken_lighten_counterexample:
  "lightenColor ''#808080'' (1 / 4) = Some ''rgb(192, 192, 192)''
   \<and> darkenColor ''rgb(192, 192, 192)'' (1 / 4) = Some ''rgb(NaN, -53, -39)''"
  by (simp add: colour_defs)


section \<open>The sequence move, close, open\<close>

lemma run_append: "run st (xs @ ys) = run (run st xs) ys"
  by (simp add: run_def)

lemma run_frames: "run st (frames n) = (animate ^^ n) st"
proof (induction n arbitrary: st)
  case 0
  show ?case by (simp add: run_def frames_def)
next
  case (Suc n)
  have "run st (frames (Suc n)) = run (animate st) (frames n)"
    by (simp add: run_def frames_def)
  with Suc show ?case by (simp add: funpow_swap1)
qed

lemma gap_scaled:
  "gap (p - (p - a) * k) (q - (q - b) * k) (r - (r - c) * k) p q r = \<bar>k\<bar> * gap a b c p q r"
proof -
  have "(p - (p - (p - a) * k)) * (p - (p - (p - a) * k))
        + (q - (q - (q - b) * k)) * (q - (q - (q - b) * k))
        + (r - (r - (r - c) * k)) * (r - (r - (r - c) * k))
      = k\<^sup>2 * ((p - a) * (p - a) + (q - b) * (q - b) + (r - c) * (r - c))"
    by (simp add: algebra_simps power2_eq_square)
  then show ?thesis
    by (simp add: gap_def real_sqrt_mult)
qed

lemma far_ticks:
  assumes an: "isAnimating st" and cur: "currentPosition st = vec a b c"
    and tgt: "targetPosition st = vec p q r" and sp: "animationSpeed st = s"
    and s: "0 \<le> s" "s \<le> 1"
  shows "\<not> gap a b c p q r * (1 - s) ^ n < 2 \<Longrightarrow>
         (animate ^^ Suc n) st =
           st\<lparr>currentPosition := vec (p - (p - a) * (1 - s) ^ Suc n) (q - (q - b) * (1 - s) ^ Suc n)
                                    (r - (r - c) * (1 - s) ^ Suc n),
              position := vec (p - (p - a) * (1 - s) ^ Suc n) (q - (q - b) * (1 - s) ^ Suc n)
                              (r - (r - c) * (1 - s) ^ Suc n)\<rparr>"
proof (induction n)
  case 0
  then have "\<not> gap a b c p q r < 2" by simp
  from animate_far [OF an cur tgt this] sp show ?case
    by (simp add: algebra_simps)
next
  case (Suc n)
  let ?k = "(1 - s) ^ Suc n"
  let ?g = "gap a b c p q r"
  have g0: "0 \<le> ?g" by (simp add: gap_def)
  have k0: "0 \<le> ?k" using s by simp
  have "?g * ?k \<le> ?g * (1 - s) ^ n"
  proof -
    have "?k \<le> (1 - s) ^ n"
      using s by (intro power_decreasing) simp_all
    with g0 show ?thesis by (rule mult_left_mono [rotated])
  qed
  then have far_n: "\<not> ?g * (1 - s) ^ n < 2"
    using Suc.prems by linarith
  note far_k = Suc.prems
  let ?st = "st\<lparr>currentPosition := vec (p - (p - a) * ?k) (q - (q - b) * ?k) (r - (r - c) * ?k),
                 position := vec (p - (p - a) * ?k) (q - (q - b) * ?k) (r - (r - c) * ?k)\<rparr>"
  have st: "(animate ^^ Suc n) st = ?st"
    using Suc.IH [OF far_n] .
  have far: "\<not> gap (p - (p - a) * ?k) (q - (q - b) * ?k) (r - (r - c) * ?k) p q r < 2"
    unfolding gap_scaled using far_k k0 by (simp add: mult.commute)
  have "(animate ^^ Suc (Suc n)) st = animate ?st"
    using st by simp
  also have "\<dots> = st\<lparr>currentPosition := vec (p - (p - a) * (1 - s) ^ Suc (Suc n))
                                           (q - (q - b) * (1 - s) ^ Suc (Suc n))
                                           (r - (r - c) * (1 - s) ^ Suc (Suc n)),
              position := vec (p - (p - a) * (1 - s) ^ Suc (Suc n))
                              (q - (q - b) * (1 - s) ^ Suc (Suc n))
                              (r - (r - c) * (1 - s) ^ Suc (Suc n))\<rparr>"
    using animate_far [of ?st, OF _ _ _ far] an tgt sp
    by (simp add: algebra_simps)
  finally show ?case .
qed

lemma started_eval:
  "started = (new_RobotVisualizer 800 600)
     \<lparr>commandQueue :=
        [(cmd ''move_to'' (Some 10) (Some 0) (Some 0) (Some 50))\<lparr>index := 0\<rparr>,
         (cmd ''close_gripper'' None None None None)\<lparr>index := 1\<rparr>,
         (cmd ''open_gripper'' None None None None)\<lparr>index := 2\<rparr>],
      isAnimating := True, executionStartTime := Some 0,
      targetPosition := vec 10 0 0, animationSpeed := 1 / 50\<rparr>"
  by (simp add: started_def gripper_sequence_def engine_defs setup_defs Let_def)

lemma started_81:
  "(animate ^^ 81) started =
     started\<lparr>currentPosition := vec 10 0 0, position := vec 10 0 0,
             commandQueue :=
        [(cmd ''move_to'' (Some 10) (Some 0) (Some 0) (Some 50))\<lparr>index := 0, completed := True\<rparr>,
         (cmd ''close_gripper'' None None None None)\<lparr>index := 1\<rparr>,
         (cmd ''open_gripper'' None None None None)\<lparr>index := 2\<rparr>],
             currentCommandIndex := 1, timers := [(200, ExecuteNextCommand)]\<rparr>"
proof -
  define k :: real where "k = (1 - 1 / 50) ^ Suc 79"
  have an: "isAnimating started" and cur: "currentPosition started = vec 0 0 0"
    and tgt: "targetPosition started = vec 10 0 0" and sp: "animationSpeed started = 1 / 50"
    by (simp_all add: started_eval new_RobotVisualizer_def origin_def vec_def)
  have g: "gap 0 0 0 10 0 0 = 10"
    by (simp add: gap_def)
  have far: "\<not> gap 0 0 0 10 0 0 * (1 - 1 / 50) ^ 79 < 2"
    unfolding g by (simp add: power_divide)
  have k: "0 \<le> k" "k * 10 < 2"
    by (simp_all add: k_def power_divide)
  let ?st = "started\<lparr>currentPosition := vec (10 - (10 - 0) * k) (0 - (0 - 0) * k) (0 - (0 - 0) * k),
                      position := vec (10 - (10 - 0) * k) (0 - (0 - 0) * k) (0 - (0 - 0) * k)\<rparr>"
  have st80: "(animate ^^ Suc 79) started = ?st"
    unfolding k_def by (rule far_ticks [OF an cur tgt sp _ _ far]) simp_all
  have near: "gap (10 - (10 - 0) * k) (0 - (0 - 0) * k) (0 - (0 - 0) * k) 10 0 0 < 2"
    unfolding gap_scaled g using k by simp
  have "(81::nat) = Suc (Suc 79)" by simp
  then have "(animate ^^ 81) started = animate ((animate ^^ Suc 79) started)"
    by (simp only: funpow.simps o_apply)
  also have "\<dots> = animate ?st"
    by (simp only: st80)
  also have "\<dots> = (completeCurrentCommand (?st\<lparr>currentPosition := vec 10 0 0\<rparr>))
                      \<lparr>position := vec 10 0 0\<rparr>"
    by (rule animate_near [OF _ _ _ near]) (simp_all add: an tgt)
  finally show ?thesis
    by (simp add: started_eval completeCurrentCommand_def setTimeout_def markCommandCompleted_def
        new_RobotVisualizer_def cmd_def Let_def)
qed


lemma run_sequence:
  "run (new_RobotVisualizer 800 600)
        ([LoadCommands gripper_sequence, StartExecution] @ frames 81 @ evs)
      = run ((animate ^^ 81) started) evs"
  by (simp only: run_append run_frames started_def)

text \<open>
  Claim C2, where the code departs from it. After \<^verbatim>\<open>startExecution\<close> on the sequence
  \<^verbatim>\<open>[move_to {10, 0, 0, speed 50}, close_gripper, open_gripper]\<close>, the move reaches its target
  on the 81st frame. When the frame loop then stalls for 216 ms, the timer activates
  \<^verbatim>\<open>close_gripper\<close>, and the next two frames, which find the arm on its target, complete
  \<^verbatim>\<open>close_gripper\<close> and \<^verbatim>\<open>open_gripper\<close> without the latter ever being activated. When all
  timers have run, the execution is over with \<^verbatim>\<open>currentCommandIndex = 3\<close>, the position
  \<open>{10, 0, 0}\<close> and \<^verbatim>\<open>isAnimating = false\<close>, but with the gripper closed.
\<close>

theorem gripper_sequence_stalled_frames:
  "\<not> gripperOpen (run (new_RobotVisualizer 800 600)
        ([LoadCommands gripper_sequence, StartExecution] @ frames 81 @ stalled_frames))
   \<and> \<not> isAnimating (run (new_RobotVisualizer 800 600)
        ([LoadCommands gripper_sequence, StartExecution] @ frames 81 @ stalled_frames))
   \<and> currentCommandIndex (run (new_RobotVisualizer 800 600)
        ([LoadCommands gripper_sequence, StartExecution] @ frames 81 @ stalled_frames)) = 3
   \<and> position (run (new_RobotVisualizer 800 600)
        ([LoadCommands gripper_sequence, StartExecution] @ frames 81 @ stalled_frames)) = vec 10 0 0
   \<and> timers (run (new_RobotVisualizer 800 600)
        ([LoadCommands gripper_sequence, StartExecution] @ frames 81 @ stalled_frames)) = []"
  unfolding run_sequence started_81
  by (simp add: started_eval stalled_frames_def engine_defs js_defs setup_defs Let_def)

text \<open>On that schedule \<^verbatim>\<open>close_gripper\<close> is activated by the first timer; the last timer runs at 1400 ms.\<close>

lemma stalled_close_runs:
  "\<not> gripperOpen (run (new_RobotVisualizer 800 600)
        ([LoadCommands gripper_sequence, StartExecution] @ frames 81 @ take 2 stalled_frames))
   \<and> clock (run (new_RobotVisualizer 800 600)
        ([LoadCommands gripper_sequence, StartExecution] @ frames 81 @ stalled_frames)) = 1400"
  unfolding run_sequence started_81
  by (simp add: started_eval stalled_frames_def engine_defs js_defs setup_defs Let_def)

text \<open>
  With a frame every 16 ms the final state is the one of the claim, but neither gripper
  command is ever activated: the two frames after the move complete them.
\<close>

lemma gripper_sequence_steady_frames:
  "gripperOpen (run (new_RobotVisualizer 800 600)
        ([LoadCommands gripper_sequence, StartExecution] @ frames 81 @ steady_frames))
   \<and> \<not> isAnimating (run (new_RobotVisualizer 800 600)
        ([LoadCommands gripper_sequence, StartExecution] @ frames 81 @ steady_frames))
   \<and> currentCommandIndex (run (new_RobotVisualizer 800 600)
        ([LoadCommands gripper_sequence, StartExecution] @ frames 81 @ steady_frames)) = 3
   \<and> position (run (new_RobotVisualizer 800 600)
        ([LoadCommands gripper_sequence, StartExecution] @ frames 81 @ steady_frames)) = vec 10 0 0
   \<and> timers (run (new_RobotVisualizer 800 600)
        ([LoadCommands gripper_sequence, StartExecution] @ frames 81 @ steady_frames)) = []
   \<and> map completed (commandQueue (run (new_RobotVisualizer 800 600)
        ([LoadCommands gripper_sequence, StartExecution] @ frames 81 @ steady_frames)))
      = [True, True, True]"
  unfolding run_sequence started_81
  by (simp add: started_eval steady_frames_def engine_defs js_defs setup_defs Let_def)


end
